theory Spec2Isabelle
  imports Complex_Main
begin

section \<open>Factor analysis by EM: the model of \<open>sklearn/decomposition/factor_analysis.py\<close>\<close>

text \<open>
  The estimator \<open>FactorAnalysis\<close> is embedded with explicit state passing. Floats are
  modelled as real numbers: rounding and the IEEE special values are outside the model,
  with one exception, the initial \<open>old_ll = -np.inf\<close>, which decides the first
  convergence test and is kept as a value of its own. The decomposition routines
  (\<open>scipy.linalg.svd\<close>, \<open>randomized_svd\<close>), the matrix inverse and the random generator are
  library calls: they are parameters of the model.
\<close>

subsection \<open>Two-dimensional arrays\<close>

text \<open>
  A 2-D \<open>ndarray\<close> carries its shape, also when it has no rows (\<open>V[:0]\<close> has shape
  \<open>(0, n_features)\<close>): the record keeps the number of columns beside the list of rows.
  An array is rectangular when every row has \<open>n_cols\<close> entries.
\<close>

type_synonym vec = "real list"

record array2 =
  n_cols :: nat
  row_list :: "vec list"

definition n_rows :: "array2 \<Rightarrow> nat" where
  "n_rows A = length (row_list A)"

definition rect :: "array2 \<Rightarrow> bool" where
  "rect A = list_all (\<lambda>r. length r = n_cols A) (row_list A)"

definition map_rows :: "(vec \<Rightarrow> vec) \<Rightarrow> array2 \<Rightarrow> array2" where
  "map_rows f A = A\<lparr>row_list := map f (row_list A)\<rparr>"

text \<open>\<open>np.sum(A, axis=0)\<close> and \<open>np.mean(A, axis=0)\<close>: one entry per column.\<close>

definition sum0 :: "array2 \<Rightarrow> vec" where
  "sum0 A = map (\<lambda>c. sum_list (map (\<lambda>r. r ! c) (row_list A))) [0..<n_cols A]"

definition mean0 :: "array2 \<Rightarrow> vec" where
  "mean0 A = map (\<lambda>t. t / real (n_rows A)) (sum0 A)"

text \<open>Broadcasting a vector of length \<open>n_cols\<close> over the rows: \<open>A - v\<close>, \<open>A / v\<close>, \<open>A * v\<close>.\<close>

definition sub_vec :: "array2 \<Rightarrow> vec \<Rightarrow> array2" where
  "sub_vec A v = map_rows (\<lambda>r. map2 (-) r v) A"

definition div_vec :: "array2 \<Rightarrow> vec \<Rightarrow> array2" where
  "div_vec A v = map_rows (\<lambda>r. map2 (/) r v) A"

definition mul_vec :: "array2 \<Rightarrow> vec \<Rightarrow> array2" where
  "mul_vec A v = map_rows (\<lambda>r. map2 (*) r v) A"

text \<open>\<open>c[:, np.newaxis] * A\<close>: row \<open>j\<close> of \<open>A\<close> is multiplied by the scalar \<open>c[j]\<close>.\<close>

definition scale_rows :: "vec \<Rightarrow> array2 \<Rightarrow> array2" where
  "scale_rows c A = A\<lparr>row_list := map2 (\<lambda>a r. map (\<lambda>x. a * x) r) c (row_list A)\<rparr>"

definition square :: "array2 \<Rightarrow> array2" where
  "square A = map_rows (map (\<lambda>x. x ^ 2)) A"

text \<open>\<open>np.var(A, axis=0)\<close>: the mean of the squared deviations from the column mean.\<close>

definition var0 :: "array2 \<Rightarrow> vec" where
  "var0 A = mean0 (square (sub_vec A (mean0 A)))"

definition flat :: "array2 \<Rightarrow> vec" where
  "flat A = concat (row_list A)"

definition dot1 :: "vec \<Rightarrow> vec \<Rightarrow> real" where
  "dot1 u v = sum_list (map2 (*) u v)"

definition np_T :: "array2 \<Rightarrow> array2" where
  "np_T A = \<lparr>n_cols = n_rows A,
            row_list = map (\<lambda>c. map (\<lambda>r. r ! c) (row_list A)) [0..<n_cols A]\<rparr>"

text \<open>\<open>np.dot(A, B)\<close> of two 2-D arrays with \<open>n_cols A = n_rows B\<close>.\<close>

definition dot :: "array2 \<Rightarrow> array2 \<Rightarrow> array2" where
  "dot A B = \<lparr>n_cols = n_cols B,
             row_list = map (\<lambda>r. map (\<lambda>c. dot1 r c) (row_list (np_T B))) (row_list A)\<rparr>"


definition add :: "array2 \<Rightarrow> array2 \<Rightarrow> array2" where
  "add A B = A\<lparr>row_list := map2 (map2 (+)) (row_list A) (row_list B)\<rparr>"

definition reshape :: "nat \<Rightarrow> nat \<Rightarrow> vec \<Rightarrow> array2" where
  "reshape m n f = \<lparr>n_cols = n, row_list = map (\<lambda>i. take n (drop (i * n) f)) [0..<m]\<rparr>"

text \<open>
  \<open>f[::step] += vals\<close> on a flat array: the positions \<open>0, step, 2 * step, ...\<close> below
  \<open>len(f)\<close> receive the entries of \<open>vals\<close> in order. With a number of positions other
  than \<open>len(vals)\<close> numpy raises unless it can broadcast; broadcasting of a length-one
  operand is not modelled, all those calls are the error branch here.
\<close>

definition iadd_strided :: "vec \<Rightarrow> nat \<Rightarrow> vec \<Rightarrow> vec option" where
  "iadd_strided f step vals =
     (if (length f + step - 1) div step \<noteq> length vals then None
      else Some (map (\<lambda>i. if i mod step = 0 then f ! i + vals ! (i div step) else f ! i)
                   [0..<length f]))"

subsection \<open>Errors, warnings, configuration and the estimator's attributes\<close>

datatype error = ValueError | UnboundLocalError | AttributeError | LinAlgError

datatype warning = ConvergenceWarning

text \<open>
  \<open>random_state\<close> is an integer seed, or a generator object that lives outside the call
  (a \<open>RandomState\<close> instance, or numpy's global generator for \<open>None\<close>).
\<close>

datatype random_state = Seed int | Shared

record config =
  n_components :: "nat option"
  tol :: real
  copy :: bool
  max_iter :: int
  noise_variance_init :: "vec option"
  svd_method :: string
  iterated_power :: int
  random_state :: random_state

text \<open>
  The fitted attributes \<open>mean_\<close>, \<open>components_\<close>, \<open>noise_variance_\<close> and \<open>loglike_\<close>
  (a name cannot end with an underscore here); \<open>None\<close> is an attribute that has not
  been set.
\<close>

record estimator =
  mean_attr :: "vec option"
  components_attr :: "array2 option"
  noise_variance_attr :: "vec option"
  loglike_attr :: "real list option"

text \<open>
  The library calls. \<open>linalg_svd M\<close> is \<open>(s, V)\<close> of \<open>linalg.svd(M, full_matrices=False)\<close>;
  \<open>randomized_svd M k g n_iter\<close> is \<open>(s, V)\<close> of the randomized routine together with the
  generator's state after the call; \<open>new_rng n\<close> is the state of \<open>RandomState(n)\<close>;
  \<open>linalg_inv\<close> is \<open>None\<close> where \<open>linalg.inv\<close> raises on a singular matrix.
\<close>

record 'r backend =
  linalg_svd :: "array2 \<Rightarrow> vec \<times> array2"
  randomized_svd :: "array2 \<Rightarrow> nat \<Rightarrow> 'r \<Rightarrow> int \<Rightarrow> (vec \<times> array2) \<times> 'r"
  new_rng :: "int \<Rightarrow> 'r"
  linalg_inv :: "array2 \<Rightarrow> array2 option"

text \<open>
  Modelled from the spec: \<open>check_random_state\<close> of \<open>sklearn.utils\<close> is not among the
  sources. For an integer seed every call derives a fresh pseudo-random source from
  that seed; any other value is the generator object itself, whose current state is
  \<open>g\<close>.
\<close>

definition check_random_state :: "'r backend \<Rightarrow> random_state \<Rightarrow> 'r \<Rightarrow> 'r" where
  "check_random_state bk rs g = (case rs of Seed n \<Rightarrow> new_rng bk n | Shared \<Rightarrow> g)"

subsection \<open>The decomposition closures of \<open>fit\<close>\<close>

type_synonym 'r my_svd = "array2 \<Rightarrow> 'r \<Rightarrow> (vec \<times> array2 \<times> real) \<times> 'r"

definition my_svd_lapack :: "'r backend \<Rightarrow> nat \<Rightarrow> 'r my_svd" where
  "my_svd_lapack bk k M g =
     (case linalg_svd bk M of (s, V) \<Rightarrow>
        ((take k s, V\<lparr>row_list := take k (row_list V)\<rparr>, dot1 (drop k s) (drop k s)), g))"

definition my_svd_randomized :: "'r backend \<Rightarrow> nat \<Rightarrow> int \<Rightarrow> 'r my_svd" where
  "my_svd_randomized bk k n_iter M g =
     (case randomized_svd bk M k g n_iter of
        ((s, V), g') \<Rightarrow> ((s, V, dot1 (flat M) (flat M) - dot1 s s), g'))"

subsection \<open>The EM loop\<close>

definition SMALL :: real where
  "SMALL = 1 / 10 ^ 12"

text \<open>\<open>old_ll\<close> is \<open>-np.inf\<close> before the first iteration and a float afterwards.\<close>

datatype ext_real = MInf | Fin real

text \<open>
  The test \<open>(ll - old_ll) < self.tol\<close>. With \<open>old_ll = -inf\<close> the difference is \<open>+inf\<close>,
  which is below no tolerance.
\<close>

definition stop_test :: "real \<Rightarrow> ext_real \<Rightarrow> real \<Rightarrow> bool" where
  "stop_test ll old t = (case old of MInf \<Rightarrow> False | Fin b \<Rightarrow> ll - b < t)"

text \<open>The values \<open>fit\<close> computes once, before the loop, and the selected closure.\<close>

record 'r em_env =
  e_svd :: "'r my_svd"
  e_X :: array2
  e_nsqrt :: real
  e_llconst :: real
  e_n_samples :: nat
  e_var :: vec
  e_tol :: real

text \<open>The local variables the loop changes; \<open>W = None\<close> is the unbound local.\<close>

record 'r em_vars =
  psi :: vec
  rs :: 'r
  old_ll :: ext_real
  loglike :: "real list"
  W :: "array2 option"

text \<open>The loop body up to the log-likelihood: the loading matrix, \<open>ll\<close>, the generator.\<close>

definition em_iter :: "'r em_env \<Rightarrow> vec \<Rightarrow> 'r \<Rightarrow> (array2 \<times> real) \<times> 'r" where
  "em_iter env p g =
     (let sqrt_psi = map (\<lambda>x. sqrt x + SMALL) p;
          ((s, V, unexp_var), g') =
             e_svd env (div_vec (e_X env) (map (\<lambda>x. x * e_nsqrt env) sqrt_psi)) g;
          s2 = map (\<lambda>x. x ^ 2) s;
          W1 = scale_rows (map (\<lambda>x. sqrt (max (x - 1) 0)) s2) V;
          W2 = mul_vec W1 sqrt_psi;
          ll1 = e_llconst env + sum_list (map ln s2);
          ll2 = ll1 + (unexp_var + sum_list (map ln p));
          ll3 = ll2 * (- real (e_n_samples env) / 2)
      in ((W2, ll3), g'))"

text \<open>\<open>psi = np.maximum(var - np.sum(W ** 2, axis=0), SMALL)\<close>.\<close>

definition noise_update :: "vec \<Rightarrow> array2 \<Rightarrow> vec" where
  "noise_update v Wn = map (\<lambda>x. max x SMALL) (map2 (-) v (sum0 (square Wn)))"

text \<open>
  \<open>for i in xrange(max_iter)\<close> with the iterations that remain as the recursion's
  argument. The boolean is \<open>True\<close> when the loop was left by \<open>break\<close>, so that the
  \<open>else\<close> clause runs on \<open>False\<close>.
\<close>

fun em_loop :: "'r em_env \<Rightarrow> nat \<Rightarrow> 'r em_vars \<Rightarrow> bool \<times> 'r em_vars" where
  "em_loop env 0 v = (False, v)"
| "em_loop env (Suc n) v =
     (case em_iter env (psi v) (rs v) of
        ((Wn, ll), g') \<Rightarrow>
          (let v1 = v\<lparr>rs := g', W := Some Wn, loglike := loglike v @ [ll]\<rparr>
           in if stop_test ll (old_ll v) (e_tol env) then (True, v1)
              else em_loop env n (v1\<lparr>old_ll := Fin ll, psi := noise_update (e_var env) Wn\<rparr>)))"

subsection \<open>\<open>fit\<close>\<close>

text \<open>
  What a call of \<open>fit\<close> leaves behind: the exception if one was raised, the estimator's
  attributes, the caller's array, the warnings emitted and the state of the generator
  object outside the call.
\<close>

record 'r fit_outcome =
  raised :: "error option"
  self_after :: estimator
  X_after :: array2
  warned :: "warning list"
  rs_after :: 'r

definition resolve_n_components :: "config \<Rightarrow> array2 \<Rightarrow> nat" where
  "resolve_n_components cfg X =
     (case n_components cfg of None \<Rightarrow> n_cols X | Some k \<Rightarrow> k)"

definition centered :: "array2 \<Rightarrow> array2" where
  "centered X = sub_vec X (mean0 X)"

definition mk_env :: "'r my_svd \<Rightarrow> config \<Rightarrow> array2 \<Rightarrow> 'r em_env" where
  "mk_env f cfg X =
     \<lparr>e_svd = f, e_X = centered X, e_nsqrt = sqrt (real (n_rows X)),
      e_llconst = real (n_cols X) * ln (2 * pi) + real (resolve_n_components cfg X),
      e_n_samples = n_rows X, e_var = var0 (centered X), e_tol = tol cfg\<rparr>"

text \<open>Lines 197 to 226: the loop, the warning of the \<open>else\<close> clause, the three stores.\<close>

definition fit_em ::
  "'r em_env \<Rightarrow> config \<Rightarrow> estimator \<Rightarrow> array2 \<Rightarrow> bool \<Rightarrow> 'r \<Rightarrow> vec \<Rightarrow> 'r \<Rightarrow> 'r fit_outcome" where
  "fit_em env cfg self1 X_caller shared g p0 g0 =
     (case em_loop env (nat (max_iter cfg))
             \<lparr>psi = p0, rs = g0, old_ll = MInf, loglike = [], W = None\<rparr> of
        (brk, v) \<Rightarrow>
          (let ws = (if brk then [] else [ConvergenceWarning]);
               g1 = (if shared then rs v else g)
           in case W v of
                None \<Rightarrow> \<lparr>raised = Some UnboundLocalError, self_after = self1,
                          X_after = X_caller, warned = ws, rs_after = g1\<rparr>
              | Some Wf \<Rightarrow>
                  \<lparr>raised = None,
                   self_after = self1\<lparr>components_attr := Some Wf,
                                       noise_variance_attr := Some (psi v),
                                       loglike_attr := Some (loglike v)\<rparr>,
                   X_after = X_caller, warned = ws, rs_after = g1\<rparr>))"

text \<open>
  \<open>fit bk cfg self g X\<close>: \<open>self\<close> holds the attributes before the call, \<open>g\<close> the state of
  the outside generator, \<open>X\<close> the caller's float array. \<open>check_arrays\<close> copies it when
  \<open>copy\<close> is set and hands the same array on otherwise, so that \<open>X -= self.mean_\<close>
  reaches the caller's array exactly when \<open>copy\<close> is \<open>False\<close>.
\<close>

definition fit :: "'r backend \<Rightarrow> config \<Rightarrow> estimator \<Rightarrow> 'r \<Rightarrow> array2 \<Rightarrow> 'r fit_outcome" where
  "fit bk cfg self g X =
     (let n_features = n_cols X;
          k = resolve_n_components cfg X;
          self1 = self\<lparr>mean_attr := Some (mean0 X)\<rparr>;
          X_caller = (if copy cfg then X else centered X);
          failed = \<lparr>raised = Some ValueError, self_after = self1, X_after = X_caller,
                    warned = [], rs_after = g\<rparr>;
          p0 = (case noise_variance_init cfg of
                  None \<Rightarrow> Inr (replicate n_features 1)
                | Some v \<Rightarrow> if length v \<noteq> n_features then Inl ValueError else Inr v)
      in case p0 of
           Inl e \<Rightarrow> failed
         | Inr p \<Rightarrow>
             if svd_method cfg = ''lapack'' then
               fit_em (mk_env (my_svd_lapack bk k) cfg X) cfg self1 X_caller False g p g
             else if svd_method cfg = ''randomized'' then
               fit_em (mk_env (my_svd_randomized bk k (iterated_power cfg)) cfg X) cfg self1
                 X_caller
                 (random_state cfg = Shared) g p (check_random_state bk (random_state cfg) g)
             else failed)"

subsection \<open>The run of the loop, iteration by iteration\<close>

text \<open>
  The loop carries \<open>(psi, random_state)\<close> from one iteration to the next. \<open>em_state env s i\<close>
  is this pair at the start of iteration \<open>i\<close> (counted from \<open>0\<close>) of a loop that started
  in \<open>s\<close> and has not been left; \<open>W_at\<close> and \<open>ll_at\<close> are the loading matrix and the
  log-likelihood iteration \<open>i\<close> computes, \<open>old_at\<close> the value of \<open>old_ll\<close> it compares with.
\<close>

definition em_step :: "'r em_env \<Rightarrow> vec \<times> 'r \<Rightarrow> vec \<times> 'r" where
  "em_step env s =
     (case em_iter env (fst s) (snd s) of
        ((Wn, ll), g') \<Rightarrow> (noise_update (e_var env) Wn, g'))"

definition em_state :: "'r em_env \<Rightarrow> vec \<times> 'r \<Rightarrow> nat \<Rightarrow> vec \<times> 'r" where
  "em_state env s i = (em_step env ^^ i) s"

definition W_at :: "'r em_env \<Rightarrow> vec \<times> 'r \<Rightarrow> nat \<Rightarrow> array2" where
  "W_at env s i = fst (fst (em_iter env (fst (em_state env s i)) (snd (em_state env s i))))"

definition ll_at :: "'r em_env \<Rightarrow> vec \<times> 'r \<Rightarrow> nat \<Rightarrow> real" where
  "ll_at env s i = snd (fst (em_iter env (fst (em_state env s i)) (snd (em_state env s i))))"

definition rs_after_at :: "'r em_env \<Rightarrow> vec \<times> 'r \<Rightarrow> nat \<Rightarrow> 'r" where
  "rs_after_at env s i = snd (em_iter env (fst (em_state env s i)) (snd (em_state env s i)))"

definition old_at :: "'r em_env \<Rightarrow> vec \<times> 'r \<Rightarrow> ext_real \<Rightarrow> nat \<Rightarrow> ext_real" where
  "old_at env s b i = (if i = 0 then b else Fin (ll_at env s (i - 1)))"

definition fires :: "'r em_env \<Rightarrow> vec \<times> 'r \<Rightarrow> ext_real \<Rightarrow> nat \<Rightarrow> bool" where
  "fires env s b i = stop_test (ll_at env s i) (old_at env s b i) (e_tol env)"

text \<open>The same for a call of \<open>fit\<close>: its closure, its constants and its initial values.\<close>

definition fit_svd :: "'r backend \<Rightarrow> config \<Rightarrow> array2 \<Rightarrow> 'r my_svd" where
  "fit_svd bk cfg X =
     (if svd_method cfg = ''lapack'' then my_svd_lapack bk (resolve_n_components cfg X)
      else my_svd_randomized bk (resolve_n_components cfg X) (iterated_power cfg))"

definition fit_env :: "'r backend \<Rightarrow> config \<Rightarrow> array2 \<Rightarrow> 'r em_env" where
  "fit_env bk cfg X = mk_env (fit_svd bk cfg X) cfg X"

definition fit_psi0 :: "config \<Rightarrow> array2 \<Rightarrow> vec" where
  "fit_psi0 cfg X =
     (case noise_variance_init cfg of None \<Rightarrow> replicate (n_cols X) 1 | Some v \<Rightarrow> v)"

definition fit_start :: "'r backend \<Rightarrow> config \<Rightarrow> 'r \<Rightarrow> array2 \<Rightarrow> vec \<times> 'r" where
  "fit_start bk cfg g X =
     (fit_psi0 cfg X,
      if svd_method cfg = ''lapack'' then g else check_random_state bk (random_state cfg) g)"

definition psi_read :: "'r backend \<Rightarrow> config \<Rightarrow> 'r \<Rightarrow> array2 \<Rightarrow> nat \<Rightarrow> vec" where
  "psi_read bk cfg g X i = fst (em_state (fit_env bk cfg X) (fit_start bk cfg g X) i)"

definition rs_read :: "'r backend \<Rightarrow> config \<Rightarrow> 'r \<Rightarrow> array2 \<Rightarrow> nat \<Rightarrow> 'r" where
  "rs_read bk cfg g X i = snd (em_state (fit_env bk cfg X) (fit_start bk cfg g X) i)"

definition W_iter :: "'r backend \<Rightarrow> config \<Rightarrow> 'r \<Rightarrow> array2 \<Rightarrow> nat \<Rightarrow> array2" where
  "W_iter bk cfg g X i = W_at (fit_env bk cfg X) (fit_start bk cfg g X) i"

definition ll_iter :: "'r backend \<Rightarrow> config \<Rightarrow> 'r \<Rightarrow> array2 \<Rightarrow> nat \<Rightarrow> real" where
  "ll_iter bk cfg g X i = ll_at (fit_env bk cfg X) (fit_start bk cfg g X) i"

definition previous_ll :: "'r backend \<Rightarrow> config \<Rightarrow> 'r \<Rightarrow> array2 \<Rightarrow> nat \<Rightarrow> ext_real" where
  "previous_ll bk cfg g X i = (if i = 0 then MInf else Fin (ll_iter bk cfg g X (i - 1)))"

definition fires_at :: "'r backend \<Rightarrow> config \<Rightarrow> 'r \<Rightarrow> array2 \<Rightarrow> nat \<Rightarrow> bool" where
  "fires_at bk cfg g X i =
     stop_test (ll_iter bk cfg g X i) (previous_ll bk cfg g X i) (tol cfg)"

text \<open>
  The decomposition of iteration \<open>i\<close>: the closure applied to the centered data divided,
  column by column, by \<open>(sqrt psi + SMALL) * sqrt n_samples\<close>.
\<close>

definition whitened :: "'r backend \<Rightarrow> config \<Rightarrow> 'r \<Rightarrow> array2 \<Rightarrow> nat \<Rightarrow> array2" where
  "whitened bk cfg g X i =
     div_vec (centered X)
       (map (\<lambda>q. (sqrt q + SMALL) * sqrt (real (n_rows X))) (psi_read bk cfg g X i))"

definition svd_iter :: "'r backend \<Rightarrow> config \<Rightarrow> 'r \<Rightarrow> array2 \<Rightarrow> nat \<Rightarrow> vec \<times> array2 \<times> real" where
  "svd_iter bk cfg g X i =
     fst (fit_svd bk cfg X (whitened bk cfg g X i) (rs_read bk cfg g X i))"

text \<open>A configuration \<open>fit\<close> accepts for the data \<open>X\<close>.\<close>

definition valid_cfg :: "config \<Rightarrow> array2 \<Rightarrow> bool" where
  "valid_cfg cfg X =
     ((svd_method cfg = ''lapack'' \<or> svd_method cfg = ''randomized'') \<and>
      (case noise_variance_init cfg of None \<Rightarrow> True | Some v \<Rightarrow> length v = n_cols X))"

text \<open>Whether the call advances a generator that lives outside of it.\<close>

definition uses_shared :: "config \<Rightarrow> bool" where
  "uses_shared cfg = (svd_method cfg = ''randomized'' \<and> random_state cfg = Shared)"

definition rs_after_iter :: "'r backend \<Rightarrow> config \<Rightarrow> 'r \<Rightarrow> array2 \<Rightarrow> nat \<Rightarrow> 'r" where
  "rs_after_iter bk cfg g X i = rs_after_at (fit_env bk cfg X) (fit_start bk cfg g X) i"

subsection \<open>Transform and covariance\<close>




text \<open>
  \<open>get_covariance\<close>: the product is a new array, and \<open>cov.flat[::len(cov) + 1] += ...\<close>
  changes that array only.
\<close>

definition get_covariance :: "estimator \<Rightarrow> error + array2" where
  "get_covariance self =
     (case components_attr self of
        None \<Rightarrow> Inl AttributeError
      | Some Wm \<Rightarrow>
          (let cov = dot (np_T Wm) Wm
           in case noise_variance_attr self of
                None \<Rightarrow> Inl AttributeError
              | Some p \<Rightarrow>
                  (case iadd_strided (flat cov) (n_rows cov + 1) p of
                     None \<Rightarrow> Inl ValueError
                   | Some f \<Rightarrow> Inr (reshape (n_rows cov) (n_cols cov) f))))"

subsection \<open>A concrete call\<close>

text \<open>
  Data with one feature, where the decomposition is known in closed form: a matrix
  with one column has the single singular value \<open>sqrt (sum of squares)\<close> and the
  right-singular vector \<open>(1)\<close>. The generator state of this backend counts the calls.
\<close>

definition column_svd :: "array2 \<Rightarrow> vec \<times> array2" where
  "column_svd M = ([sqrt (dot1 (flat M) (flat M))], \<lparr>n_cols = 1, row_list = [[1]]\<rparr>)"

definition inv1 :: "array2 \<Rightarrow> array2 option" where
  "inv1 A = (case row_list A of
               [[a]] \<Rightarrow> if a = 0 then None else Some \<lparr>n_cols = 1, row_list = [[1 / a]]\<rparr>
             | _ \<Rightarrow> None)"

definition demo_backend :: "nat backend" where
  "demo_backend =
     \<lparr>linalg_svd = column_svd,
      randomized_svd =
        (\<lambda>M k g n.
           case column_svd M of
             (s, V) \<Rightarrow> ((take k s, V\<lparr>row_list := take k (row_list V)\<rparr>), Suc g)),
      new_rng = (\<lambda>n. nat (abs n)),
      linalg_inv = inv1\<rparr>"

definition demo_X :: array2 where
  "demo_X = \<lparr>n_cols = 1, row_list = [[1], [3]]\<rparr>"

text \<open>The defaults of \<open>__init__\<close>, and the same with the exact decomposition.\<close>

definition default_cfg :: config where
  "default_cfg =
     \<lparr>n_components = None, tol = 1 / 100, copy = True, max_iter = 1000,
      noise_variance_init = None, svd_method = ''randomized'', iterated_power = 3,
      random_state = Seed 0\<rparr>"

definition lapack_cfg :: config where
  "lapack_cfg = default_cfg\<lparr>svd_method := ''lapack''\<rparr>"

definition unfitted :: estimator where
  "unfitted =
     \<lparr>mean_attr = None, components_attr = None, noise_variance_attr = None,
      loglike_attr = None\<rparr>"

subsection \<open>What the libraries are assumed to return\<close>

text \<open>
  The right-singular vectors the closure of \<open>fit\<close> returns form a rectangular array
  with \<open>n_features\<close> columns.
\<close>

definition svd_vectors_ok :: "'r backend \<Rightarrow> config \<Rightarrow> array2 \<Rightarrow> bool" where
  "svd_vectors_ok bk cfg X =
     (\<forall>M g. n_cols M = n_cols X \<longrightarrow>
        (case fst (fit_svd bk cfg X M g) of (s, V, u) \<Rightarrow> n_cols V = n_cols X \<and> rect V))"

text \<open>
  The number of singular values and vectors of the two library routines, for a matrix
  of the shape of the data: a thin decomposition has \<open>min n_samples n_features\<close> of
  them, and the randomized routine keeps at most the \<open>k\<close> it is asked for.
\<close>

definition svd_counts_ok :: "'r backend \<Rightarrow> array2 \<Rightarrow> bool" where
  "svd_counts_ok bk X =
     (\<forall>M. n_rows M = n_rows X \<longrightarrow> n_cols M = n_cols X \<longrightarrow>
        (case linalg_svd bk M of
           (s, V) \<Rightarrow> length s = min (n_rows X) (n_cols X) \<and>
                     n_rows V = min (n_rows X) (n_cols X)) \<and>
        (\<forall>k g n.
           case fst (randomized_svd bk M k g n) of
             (s, V) \<Rightarrow> length s = min k (min (n_rows X) (n_cols X)) \<and>
                       n_rows V = min k (min (n_rows X) (n_cols X))))"


text \<open>
  More configurations: an initial noise variance of zero with a single iteration, a
  single iteration, no iteration at all, two components asked of data with a single
  feature, and a negative tolerance with the initial noise variance \<open>SMALL\<^sup>2\<close>.
\<close>

definition zero_init_cfg :: config where
  "zero_init_cfg = lapack_cfg\<lparr>noise_variance_init := Some [0], max_iter := 1\<rparr>"




definition neg_tol_cfg :: config where
  "neg_tol_cfg = lapack_cfg\<lparr>tol := - 2, noise_variance_init := Some [1 / 10 ^ 24]\<rparr>"

text \<open>
  The entry in row \<open>i\<close> and column \<open>j\<close>. A square matrix is singular when it sends a
  vector other than zero to zero. The inverse's contract, for \<open>k \<times> k\<close> matrices:
  \<open>linalg.inv\<close> raises on singular matrices only, and what it returns is a \<open>k \<times> k\<close> right
  inverse.
\<close>

definition entry :: "array2 \<Rightarrow> nat \<Rightarrow> nat \<Rightarrow> real" where
  "entry A i j = row_list A ! i ! j"



section \<open>The loop, unrolled\<close>

lemma em_state_0: "em_state env s 0 = s"
  by (simp add: em_state_def)

lemma em_state_Suc: "em_state env s (Suc i) = em_step env (em_state env s i)"
  by (simp add: em_state_def)

lemma em_state_shift: "em_state env s (Suc i) = em_state env (em_step env s) i"
  by (simp add: em_state_def funpow_swap1)

lemma ll_at_shift: "ll_at env s (Suc i) = ll_at env (em_step env s) i"
  by (simp add: ll_at_def em_state_shift)

lemma W_at_shift: "W_at env s (Suc i) = W_at env (em_step env s) i"
  by (simp add: W_at_def em_state_shift)

lemma rs_after_at_shift: "rs_after_at env s (Suc i) = rs_after_at env (em_step env s) i"
  by (simp add: rs_after_at_def em_state_shift)

lemma old_at_shift: "old_at env s b (Suc i) = old_at env (em_step env s) (Fin (ll_at env s 0)) i"
  by (cases i) (simp_all add: old_at_def ll_at_shift)

lemma fires_shift: "fires env s b (Suc i) = fires env (em_step env s) (Fin (ll_at env s 0)) i"
  by (simp add: fires_def ll_at_shift old_at_shift)

lemma em_iter_split:
  "em_iter env p g = ((W_at env (p, g) 0, ll_at env (p, g) 0), rs_after_at env (p, g) 0)"
  by (simp add: W_at_def ll_at_def rs_after_at_def em_state_0)

lemma em_step_eq:
  "em_step env (p, g) = (noise_update (e_var env) (W_at env (p, g) 0), rs_after_at env (p, g) 0)"
  by (simp add: em_step_def em_iter_split)

lemma map_ll_shift:
  "ll_at env s 0 # map (ll_at env (em_step env s)) [0..<n] = map (ll_at env s) [0..<Suc n]"
  by (simp only: map_upt_Suc ll_at_shift)

lemma em_loop_step:
  assumes "\<not> stop_test (ll_at env (psi v, rs v) 0) (old_ll v) (e_tol env)"
  shows "em_loop env (Suc n) v =
     em_loop env n \<lparr>psi = fst (em_step env (psi v, rs v)), rs = snd (em_step env (psi v, rs v)),
                     old_ll = Fin (ll_at env (psi v, rs v) 0),
                     loglike = loglike v @ [ll_at env (psi v, rs v) 0],
                     W = Some (W_at env (psi v, rs v) 0)\<rparr>"
  using assms by (cases v) (simp add: em_iter_split em_step_eq)

lemma em_loop_exhausted:
  "(\<And>i. i < n \<Longrightarrow> \<not> fires env (psi v, rs v) (old_ll v) i) \<Longrightarrow>
   em_loop env n v =
     (False, \<lparr>psi = fst (em_state env (psi v, rs v) n),
              rs = snd (em_state env (psi v, rs v) n),
              old_ll = old_at env (psi v, rs v) (old_ll v) n,
              loglike = loglike v @ map (ll_at env (psi v, rs v)) [0..<n],
              W = (if n = 0 then W v else Some (W_at env (psi v, rs v) (n - 1)))\<rparr>)"
proof (induction n arbitrary: v)
  case 0
  then show ?case by (simp add: em_state_0 old_at_def)
next
  case (Suc n)
  let ?s = "(psi v, rs v)"
  let ?v' = "\<lparr>psi = fst (em_step env ?s), rs = snd (em_step env ?s),
              old_ll = Fin (ll_at env ?s 0), loglike = loglike v @ [ll_at env ?s 0],
              W = Some (W_at env ?s 0)\<rparr>"
  have nf0: "\<not> stop_test (ll_at env ?s 0) (old_ll v) (e_tol env)"
    using Suc.prems[of 0] by (simp add: fires_def old_at_def)
  have nf: "\<not> fires env (psi ?v', rs ?v') (old_ll ?v') i" if "i < n" for i
    using Suc.prems[of "Suc i"] that by (simp add: fires_shift)
  have "em_loop env (Suc n) v = em_loop env n ?v'"
    by (rule em_loop_step[OF nf0])
  also have "\<dots> = (False, \<lparr>psi = fst (em_state env (psi ?v', rs ?v') n),
              rs = snd (em_state env (psi ?v', rs ?v') n),
              old_ll = old_at env (psi ?v', rs ?v') (old_ll ?v') n,
              loglike = loglike ?v' @ map (ll_at env (psi ?v', rs ?v')) [0..<n],
              W = (if n = 0 then W ?v' else Some (W_at env (psi ?v', rs ?v') (n - 1)))\<rparr>)"
    by (rule Suc.IH[OF nf])
  also have "\<dots> = (False, \<lparr>psi = fst (em_state env ?s (Suc n)),
              rs = snd (em_state env ?s (Suc n)),
              old_ll = old_at env ?s (old_ll v) (Suc n),
              loglike = loglike v @ map (ll_at env ?s) [0..<Suc n],
              W = (if Suc n = 0 then W v else Some (W_at env ?s (Suc n - 1)))\<rparr>)"
  proof (cases n)
    case 0
    then show ?thesis by (simp add: em_state_shift old_at_shift W_at_shift em_state_0)
  next
    case (Suc m)
    then show ?thesis
      by (simp add: em_state_shift old_at_shift map_ll_shift W_at_shift del: upt_Suc)
  qed
  finally show ?case .
qed

lemma em_loop_break:
  "k < n \<Longrightarrow> fires env (psi v, rs v) (old_ll v) k \<Longrightarrow>
   (\<And>i. i < k \<Longrightarrow> \<not> fires env (psi v, rs v) (old_ll v) i) \<Longrightarrow>
   em_loop env n v =
     (True, \<lparr>psi = fst (em_state env (psi v, rs v) k),
             rs = rs_after_at env (psi v, rs v) k,
             old_ll = old_at env (psi v, rs v) (old_ll v) k,
             loglike = loglike v @ map (ll_at env (psi v, rs v)) [0..<Suc k],
             W = Some (W_at env (psi v, rs v) k)\<rparr>)"
proof (induction n arbitrary: v k)
  case 0
  then show ?case by simp
next
  case (Suc n)
  let ?s = "(psi v, rs v)"
  show ?case
  proof (cases "k = 0")
    case True
    then have "stop_test (ll_at env ?s 0) (old_ll v) (e_tol env)"
      using Suc.prems(2) by (simp add: fires_def old_at_def)
    then show ?thesis using True
      by (simp add: em_iter_split em_state_0 old_at_def)
  next
    case False
    then obtain j where kj: "k = Suc j" by (cases k) auto
    let ?v' = "\<lparr>psi = fst (em_step env ?s), rs = snd (em_step env ?s),
              old_ll = Fin (ll_at env ?s 0), loglike = loglike v @ [ll_at env ?s 0],
              W = Some (W_at env ?s 0)\<rparr>"
    have nf0: "\<not> stop_test (ll_at env ?s 0) (old_ll v) (e_tol env)"
      using Suc.prems(3)[of 0] kj by (simp add: fires_def old_at_def)
    have j: "j < n" using Suc.prems(1) kj by simp
    have fj: "fires env (psi ?v', rs ?v') (old_ll ?v') j"
      using Suc.prems(2) kj by (simp add: fires_shift)
    have nf: "\<not> fires env (psi ?v', rs ?v') (old_ll ?v') i" if "i < j" for i
      using Suc.prems(3)[of "Suc i"] that kj by (simp add: fires_shift)
    have "em_loop env (Suc n) v = em_loop env n ?v'"
      by (rule em_loop_step[OF nf0])
    also have "\<dots> = (True, \<lparr>psi = fst (em_state env (psi ?v', rs ?v') j),
             rs = rs_after_at env (psi ?v', rs ?v') j,
             old_ll = old_at env (psi ?v', rs ?v') (old_ll ?v') j,
             loglike = loglike ?v' @ map (ll_at env (psi ?v', rs ?v')) [0..<Suc j],
             W = Some (W_at env (psi ?v', rs ?v') j)\<rparr>)"
      by (rule Suc.IH[OF j fj nf])
    also have "\<dots> = (True, \<lparr>psi = fst (em_state env ?s (Suc j)),
             rs = rs_after_at env ?s (Suc j),
             old_ll = old_at env ?s (old_ll v) (Suc j),
             loglike = loglike v @ map (ll_at env ?s) [0..<Suc (Suc j)],
             W = Some (W_at env ?s (Suc j))\<rparr>)"
      by (simp add: em_state_shift old_at_shift map_ll_shift W_at_shift rs_after_at_shift
            del: upt_Suc)
    finally show ?thesis unfolding kj .
  qed
qed

lemma fit_valid:
  "valid_cfg cfg X \<Longrightarrow>
   fit bk cfg self g X =
     fit_em (fit_env bk cfg X) cfg (self\<lparr>mean_attr := Some (mean0 X)\<rparr>)
       (if copy cfg then X else centered X) (uses_shared cfg) g
       (fst (fit_start bk cfg g X)) (snd (fit_start bk cfg g X))"
  by (auto simp: valid_cfg_def fit_def fit_env_def fit_svd_def fit_start_def fit_psi0_def
        uses_shared_def Let_def split: option.splits)

lemma fires_fit: "fires (fit_env bk cfg X) (fit_start bk cfg g X) MInf i = fires_at bk cfg g X i"
  by (simp add: fires_def fires_at_def old_at_def previous_ll_def ll_iter_def fit_env_def mk_env_def)

lemma not_fires_at_0: "\<not> fires_at bk cfg g X 0"
  by (simp add: fires_at_def previous_ll_def stop_test_def)

lemma first_firing:
  fixes P :: "nat \<Rightarrow> bool"
  assumes "k < m" "P k"
  shows "\<exists>j<m. P j \<and> (\<forall>i<j. \<not> P i)"
proof -
  let ?j = "LEAST j. P j"
  have a: "P ?j" by (rule LeastI[of P, OF assms(2)])
  have b: "?j \<le> k" by (rule Least_le[of P, OF assms(2)])
  have c: "\<not> P i" if "i < ?j" for i using not_less_Least[OF that] .
  have "?j < m" using b assms(1) by simp
  with a c show ?thesis by blast
qed

lemma fit_em_stored:
  assumes "em_loop env (nat (max_iter cfg))
             \<lparr>psi = p0, rs = g0, old_ll = MInf, loglike = [], W = None\<rparr> = (brk, v)"
    and "W v = Some Wf"
  shows "fit_em env cfg self1 Xc shared g p0 g0 =
     \<lparr>raised = None,
      self_after = self1\<lparr>components_attr := Some Wf, noise_variance_attr := Some (psi v),
                          loglike_attr := Some (loglike v)\<rparr>,
      X_after = Xc, warned = (if brk then [] else [ConvergenceWarning]),
      rs_after = (if shared then rs v else g)\<rparr>"
  using assms by (simp add: fit_em_def)

lemma fit_em_unbound:
  assumes "em_loop env (nat (max_iter cfg))
             \<lparr>psi = p0, rs = g0, old_ll = MInf, loglike = [], W = None\<rparr> = (brk, v)"
    and "W v = None"
  shows "fit_em env cfg self1 Xc shared g p0 g0 =
     \<lparr>raised = Some UnboundLocalError, self_after = self1,
      X_after = Xc, warned = (if brk then [] else [ConvergenceWarning]),
      rs_after = (if shared then rs v else g)\<rparr>"
  using assms by (simp add: fit_em_def)

lemma fit_exhausted:
  assumes v: "valid_cfg cfg X"
    and nf: "\<And>i. i < nat (max_iter cfg) \<Longrightarrow> \<not> fires_at bk cfg g X i"
    and pos: "0 < max_iter cfg"
  shows "fit bk cfg self g X =
     \<lparr>raised = None,
      self_after = self\<lparr>mean_attr := Some (mean0 X),
                    components_attr := Some (W_iter bk cfg g X (nat (max_iter cfg) - 1)),
                    noise_variance_attr := Some (psi_read bk cfg g X (nat (max_iter cfg))),
                    loglike_attr := Some (map (ll_iter bk cfg g X) [0..<nat (max_iter cfg)])\<rparr>,
      X_after = (if copy cfg then X else centered X),
      warned = [ConvergenceWarning],
      rs_after = (if uses_shared cfg then rs_read bk cfg g X (nat (max_iter cfg)) else g)\<rparr>"
proof -
  let ?s = "fit_start bk cfg g X"
  let ?env = "fit_env bk cfg X"
  let ?m = "nat (max_iter cfg)"
  let ?v0 = "\<lparr>psi = fst ?s, rs = snd ?s, old_ll = MInf, loglike = [], W = None\<rparr>"
  have m: "?m \<noteq> 0" using pos by simp
  have "\<not> fires ?env (psi ?v0, rs ?v0) (old_ll ?v0) i" if "i < ?m" for i
    using nf[OF that] by (simp add: fires_fit)
  from em_loop_exhausted[of ?m ?env ?v0, OF this]
  have run: "em_loop ?env ?m ?v0 =
     (False, \<lparr>psi = fst (em_state ?env ?s ?m), rs = snd (em_state ?env ?s ?m),
              old_ll = old_at ?env ?s MInf ?m,
              loglike = map (ll_at ?env ?s) [0..<?m],
              W = Some (W_at ?env ?s (?m - 1))\<rparr>)"
    using m by simp
  show ?thesis
    unfolding fit_valid[OF v]
    by (simp add: fit_em_stored[OF run] psi_read_def rs_read_def W_iter_def ll_iter_def)
qed

lemma fit_no_iteration:
  assumes v: "valid_cfg cfg X" and le: "max_iter cfg \<le> 0"
  shows "fit bk cfg self g X =
     \<lparr>raised = Some UnboundLocalError,
      self_after = self\<lparr>mean_attr := Some (mean0 X)\<rparr>,
      X_after = (if copy cfg then X else centered X),
      warned = [ConvergenceWarning],
      rs_after = (if uses_shared cfg then snd (fit_start bk cfg g X) else g)\<rparr>"
proof -
  have z: "nat (max_iter cfg) = 0" using le by simp
  show ?thesis
    unfolding fit_valid[OF v] by (simp add: fit_em_def z)
qed

lemma fit_break:
  assumes v: "valid_cfg cfg X"
    and k: "k < nat (max_iter cfg)"
    and f: "fires_at bk cfg g X k"
    and nf: "\<And>i. i < k \<Longrightarrow> \<not> fires_at bk cfg g X i"
  shows "fit bk cfg self g X =
     \<lparr>raised = None,
      self_after = self\<lparr>mean_attr := Some (mean0 X),
                    components_attr := Some (W_iter bk cfg g X k),
                    noise_variance_attr := Some (psi_read bk cfg g X k),
                    loglike_attr := Some (map (ll_iter bk cfg g X) [0..<Suc k])\<rparr>,
      X_after = (if copy cfg then X else centered X),
      warned = [],
      rs_after = (if uses_shared cfg then rs_after_iter bk cfg g X k else g)\<rparr>"
proof -
  let ?s = "fit_start bk cfg g X"
  let ?env = "fit_env bk cfg X"
  let ?m = "nat (max_iter cfg)"
  let ?v0 = "\<lparr>psi = fst ?s, rs = snd ?s, old_ll = MInf, loglike = [], W = None\<rparr>"
  have f': "fires ?env (psi ?v0, rs ?v0) (old_ll ?v0) k"
    using f by (simp add: fires_fit)
  have nf': "\<not> fires ?env (psi ?v0, rs ?v0) (old_ll ?v0) i" if "i < k" for i
    using nf[OF that] by (simp add: fires_fit)
  from em_loop_break[of k ?m ?env ?v0, OF k f' nf']
  have run: "em_loop ?env ?m ?v0 =
     (True, \<lparr>psi = fst (em_state ?env ?s k), rs = rs_after_at ?env ?s k,
             old_ll = old_at ?env ?s MInf k,
             loglike = map (ll_at ?env ?s) [0..<Suc k],
             W = Some (W_at ?env ?s k)\<rparr>)"
    by (simp del: upt_Suc)
  show ?thesis
    unfolding fit_valid[OF v]
    by (simp add: fit_em_stored[OF run] psi_read_def rs_after_iter_def W_iter_def ll_iter_def
          del: upt_Suc)
qed

section \<open>An initial noise variance of the wrong length\<close>

text \<open>
  Claim C1, as amended. A call of \<open>fit\<close> with an initial noise-variance vector whose
  length differs from \<open>n_features\<close> raises \<open>ValueError\<close>, emits no warning and leaves
  \<open>components_\<close>, \<open>noise_variance_\<close> and \<open>loglike_\<close> untouched. The check comes after
  the centering: \<open>mean_\<close> has been stored, and with \<open>copy=False\<close> the caller's array
  has been centered in place.
\<close>

theorem fit_wrong_init_length:
  assumes "noise_variance_init cfg = Some v" and "length v \<noteq> n_cols X"
  shows "fit bk cfg self g X =
     \<lparr>raised = Some ValueError,
      self_after = self\<lparr>mean_attr := Some (mean0 X)\<rparr>,
      X_after = (if copy cfg then X else centered X),
      warned = [],
      rs_after = g\<rparr>"
  using assms by (simp add: fit_def)

lemma mean0_demo_X: "mean0 demo_X = [2]"
  by (simp add: mean0_def sum0_def demo_X_def n_rows_def)

lemma centered_demo_X: "centered demo_X = \<lparr>n_cols = 1, row_list = [[-1], [1]]\<rparr>"
  by (simp add: centered_def mean0_demo_X sub_vec_def map_rows_def) (simp add: demo_X_def)

theorem fit_wrong_init_length_witness:
  "noise_variance_init (default_cfg\<lparr>noise_variance_init := Some [1, 1, 1]\<rparr>) = Some [1, 1, 1] \<and>
   length [1, 1, 1 :: real] \<noteq> n_cols demo_X \<and>
   fit demo_backend (default_cfg\<lparr>noise_variance_init := Some [1, 1, 1]\<rparr>) unfitted 0 demo_X =
     \<lparr>raised = Some ValueError,
      self_after = unfitted\<lparr>mean_attr := Some [2]\<rparr>,
      X_after = demo_X, warned = [], rs_after = 0\<rparr>"
  using fit_wrong_init_length[of "default_cfg\<lparr>noise_variance_init := Some [1, 1, 1]\<rparr>"
      "[1, 1, 1]" demo_X demo_backend unfitted 0]
  by (simp add: mean0_demo_X) (simp add: demo_X_def default_cfg_def)

text \<open>
  The claim as stated fails: with \<open>copy=False\<close> and three initial variances for data
  with one feature, the call raises, and by then \<open>mean_\<close> is set and the caller's
  array \<open>[[1], [3]]\<close> has become \<open>[[-1], [1]]\<close>.
\<close>

theorem fit_wrong_init_length_counterexample:
  "raised (fit demo_backend
             (default_cfg\<lparr>copy := False, noise_variance_init := Some [1, 1, 1]\<rparr>)
             unfitted 0 demo_X) = Some ValueError \<and>
   mean_attr (self_after (fit demo_backend
             (default_cfg\<lparr>copy := False, noise_variance_init := Some [1, 1, 1]\<rparr>)
             unfitted 0 demo_X)) = Some [2] \<and>
   X_after (fit demo_backend
             (default_cfg\<lparr>copy := False, noise_variance_init := Some [1, 1, 1]\<rparr>)
             unfitted 0 demo_X) = \<lparr>n_cols = 1, row_list = [[-1], [1]]\<rparr> \<and>
   X_after (fit demo_backend
             (default_cfg\<lparr>copy := False, noise_variance_init := Some [1, 1, 1]\<rparr>)
             unfitted 0 demo_X) \<noteq> demo_X"
proof -
  have n: "n_cols demo_X = 1" by (simp add: demo_X_def)
  have "fit demo_backend
          (default_cfg\<lparr>copy := False, noise_variance_init := Some [1, 1, 1]\<rparr>)
          unfitted 0 demo_X =
        \<lparr>raised = Some ValueError, self_after = unfitted\<lparr>mean_attr := Some [2]\<rparr>,
         X_after = \<lparr>n_cols = 1, row_list = [[-1], [1]]\<rparr>, warned = [], rs_after = 0\<rparr>"
    by (simp add: fit_def n mean0_demo_X centered_demo_X default_cfg_def)
  then show ?thesis by (simp add: demo_X_def)
qed

section \<open>The two ways out of the loop\<close>

lemma fires_at_Suc:
  "fires_at bk cfg g X (Suc j) = (ll_iter bk cfg g X (Suc j) - ll_iter bk cfg g X j < tol cfg)"
  by (simp add: fires_at_def previous_ll_def stop_test_def)

lemma fit_run_cases:
  assumes v: "valid_cfg cfg X" and pos: "0 < max_iter cfg"
  obtains (converged) k where "k < nat (max_iter cfg)" "fires_at bk cfg g X k"
      "\<And>i. i < k \<Longrightarrow> \<not> fires_at bk cfg g X i"
      "fit bk cfg self g X =
         \<lparr>raised = None,
          self_after = self\<lparr>mean_attr := Some (mean0 X),
                    components_attr := Some (W_iter bk cfg g X k),
                    noise_variance_attr := Some (psi_read bk cfg g X k),
                    loglike_attr := Some (map (ll_iter bk cfg g X) [0..<Suc k])\<rparr>,
          X_after = (if copy cfg then X else centered X),
          warned = [],
          rs_after = (if uses_shared cfg then rs_after_iter bk cfg g X k else g)\<rparr>"
  | (exhausted) "\<And>i. i < nat (max_iter cfg) \<Longrightarrow> \<not> fires_at bk cfg g X i"
      "fit bk cfg self g X =
         \<lparr>raised = None,
          self_after = self\<lparr>mean_attr := Some (mean0 X),
                    components_attr := Some (W_iter bk cfg g X (nat (max_iter cfg) - 1)),
                    noise_variance_attr := Some (psi_read bk cfg g X (nat (max_iter cfg))),
                    loglike_attr := Some (map (ll_iter bk cfg g X) [0..<nat (max_iter cfg)])\<rparr>,
          X_after = (if copy cfg then X else centered X),
          warned = [ConvergenceWarning],
          rs_after = (if uses_shared cfg then rs_read bk cfg g X (nat (max_iter cfg)) else g)\<rparr>"
proof (cases "\<exists>k<nat (max_iter cfg). fires_at bk cfg g X k")
  case True
  then obtain k0 where "k0 < nat (max_iter cfg)" "fires_at bk cfg g X k0" by blast
  from first_firing[of k0 "nat (max_iter cfg)" "fires_at bk cfg g X", OF this]
  obtain k where k: "k < nat (max_iter cfg)" "fires_at bk cfg g X k"
    and nf: "\<And>i. i < k \<Longrightarrow> \<not> fires_at bk cfg g X i" by blast
  show ?thesis
    by (rule converged[OF k nf fit_break[OF v k nf]])
next
  case False
  then have nf: "\<And>i. i < nat (max_iter cfg) \<Longrightarrow> \<not> fires_at bk cfg g X i" by blast
  show ?thesis
    by (rule exhausted[OF nf fit_exhausted[OF v nf pos]])
qed


section \<open>The run on the concrete data\<close>

text \<open>
  On \<open>demo_X\<close> with the exact decomposition the first iteration finds no loading
  (\<open>s\<^sup>2 < 1\<close>), the noise variance stays \<open>[1]\<close>, and the second iteration repeats the
  first log-likelihood: the loop is left by \<open>break\<close> in its second iteration.
\<close>

lemma SMALL_pos: "0 < SMALL"
  by (simp add: SMALL_def)

lemma var0_centered_demo_X: "var0 \<lparr>n_cols = Suc 0, row_list = [[-1], [1]]\<rparr> = [1]"
  by (simp add: var0_def mean0_def sum0_def n_rows_def sub_vec_def map_rows_def
        square_def)

lemma shape_demo_X: "n_rows demo_X = 2" "n_cols demo_X = Suc 0"
  by (simp_all add: demo_X_def n_rows_def)

lemma demo_env:
  "fit_env demo_backend lapack_cfg demo_X =
     \<lparr>e_svd = my_svd_lapack demo_backend (Suc 0),
      e_X = \<lparr>n_cols = Suc 0, row_list = [[-1], [1]]\<rparr>,
      e_nsqrt = sqrt 2, e_llconst = ln (2 * pi) + 1, e_n_samples = 2,
      e_var = [1], e_tol = 1 / 100\<rparr>"
  by (simp add: fit_env_def mk_env_def fit_svd_def centered_demo_X var0_centered_demo_X
        shape_demo_X resolve_n_components_def lapack_cfg_def default_cfg_def)

lemma demo_singular_value:
  "dot1 (flat (div_vec \<lparr>n_cols = Suc 0, row_list = [[-1], [1]]\<rparr> [(1 + SMALL) * sqrt 2]))
        (flat (div_vec \<lparr>n_cols = Suc 0, row_list = [[-1], [1]]\<rparr> [(1 + SMALL) * sqrt 2])) =
   (1 / (1 + SMALL))\<^sup>2"
proof -
  define c where "c = (1 + SMALL) * sqrt 2"
  have c2: "c\<^sup>2 = 2 * (1 + SMALL)\<^sup>2" by (simp add: c_def power_mult_distrib)
  have "dot1 (flat (div_vec \<lparr>n_cols = Suc 0, row_list = [[-1], [1]]\<rparr> [c]))
             (flat (div_vec \<lparr>n_cols = Suc 0, row_list = [[-1], [1]]\<rparr> [c])) = 2 / c\<^sup>2"
    by (simp add: div_vec_def map_rows_def flat_def dot1_def power2_eq_square)
  also have "\<dots> = (1 / (1 + SMALL))\<^sup>2"
    unfolding c2 by (simp add: power_divide)
  finally show ?thesis unfolding c_def .
qed

lemma demo_scale: "max ((1 / (1 + SMALL))\<^sup>2 - 1) 0 = 0"
proof -
  have "1 / (1 + SMALL) \<le> 1" using SMALL_pos by simp
  moreover have "0 \<le> 1 / (1 + SMALL)" using SMALL_pos by simp
  ultimately have "(1 / (1 + SMALL))\<^sup>2 \<le> 1" by (simp add: power_le_one)
  then show ?thesis by simp
qed

lemma demo_svd:
  "my_svd_lapack demo_backend (Suc 0)
     (div_vec \<lparr>n_cols = Suc 0, row_list = [[-1], [1]]\<rparr> [(1 + SMALL) * sqrt 2]) g =
   (([1 / (1 + SMALL)], \<lparr>n_cols = 1, row_list = [[1]]\<rparr>, 0), g)"
proof -
  have p: "0 \<le> 1 / (1 + SMALL)" "\<bar>1 + SMALL\<bar> = 1 + SMALL" using SMALL_pos by simp_all
  show ?thesis
    by (simp add: my_svd_lapack_def demo_backend_def column_svd_def demo_singular_value
          real_sqrt_abs p)
      (simp add: dot1_def)
qed

lemma demo_em_iter_W:
  "fst (fst (em_iter (fit_env demo_backend lapack_cfg demo_X) [1] g)) =
     \<lparr>n_cols = 1, row_list = [[0]]\<rparr>"
  by (simp add: em_iter_def demo_env demo_svd demo_scale scale_rows_def mul_vec_def
        map_rows_def Let_def)

lemma demo_em_iter_rs:
  "snd (em_iter (fit_env demo_backend lapack_cfg demo_X) [1] g) = g"
  by (simp add: em_iter_def demo_env demo_svd Let_def)

lemma demo_em_step:
  "em_step (fit_env demo_backend lapack_cfg demo_X) ([1], g) = ([1], g)"
proof -
  have "noise_update [1] \<lparr>n_cols = 1, row_list = [[0]]\<rparr> = [1]"
    using SMALL_pos
    by (simp add: noise_update_def sum0_def square_def map_rows_def SMALL_def)
  then show ?thesis
    using demo_em_iter_W[of g] demo_em_iter_rs[of g]
    by (simp add: em_step_def case_prod_beta demo_env)
qed

lemma demo_em_state:
  "em_state (fit_env demo_backend lapack_cfg demo_X) ([1], g) i = ([1], g)"
  by (induction i) (simp_all add: em_state_0 em_state_Suc demo_em_step)

lemma demo_start: "fit_start demo_backend lapack_cfg g demo_X = ([1], g)"
  by (simp add: fit_start_def fit_psi0_def shape_demo_X lapack_cfg_def default_cfg_def)

lemma demo_psi_read: "psi_read demo_backend lapack_cfg g demo_X i = [1]"
  by (simp add: psi_read_def demo_start demo_em_state)

lemma demo_W_iter:
  "W_iter demo_backend lapack_cfg g demo_X i = \<lparr>n_cols = 1, row_list = [[0]]\<rparr>"
  by (simp add: W_iter_def W_at_def demo_start demo_em_state demo_em_iter_W)

lemma demo_ll_iter:
  "ll_iter demo_backend lapack_cfg g demo_X i = ll_iter demo_backend lapack_cfg g demo_X 0"
  by (simp add: ll_iter_def ll_at_def demo_start demo_em_state)

lemma demo_fires: "fires_at demo_backend lapack_cfg g demo_X (Suc 0)"
  by (simp add: fires_at_Suc demo_ll_iter[of g "Suc 0"]) (simp add: lapack_cfg_def default_cfg_def)

lemma demo_valid: "valid_cfg lapack_cfg demo_X" "0 < max_iter lapack_cfg"
  "Suc 0 < nat (max_iter lapack_cfg)"
  by (simp_all add: valid_cfg_def lapack_cfg_def default_cfg_def)

lemma demo_fit:
  "fit demo_backend lapack_cfg self g demo_X =
     \<lparr>raised = None,
      self_after = self\<lparr>mean_attr := Some [2],
                    components_attr := Some \<lparr>n_cols = 1, row_list = [[0]]\<rparr>,
                    noise_variance_attr := Some [1],
                    loglike_attr := Some [ll_iter demo_backend lapack_cfg g demo_X 0,
                                          ll_iter demo_backend lapack_cfg g demo_X 0]\<rparr>,
      X_after = demo_X, warned = [], rs_after = g\<rparr>"
proof -
  have nf: "\<not> fires_at demo_backend lapack_cfg g demo_X i" if "i < Suc 0" for i
    using that by (simp add: not_fires_at_0)
  have c: "copy lapack_cfg" "\<not> uses_shared lapack_cfg"
    by (simp_all add: lapack_cfg_def default_cfg_def uses_shared_def)
  note run = fit_break[OF demo_valid(1) demo_valid(3) demo_fires nf]
  show ?thesis
    by (simp add: run c demo_W_iter demo_psi_read mean0_demo_X demo_ll_iter[of g "Suc 0"])
qed

section \<open>The convergence test\<close>

text \<open>
  Claim C2, as amended. With \<open>max_iter > 0\<close> the loop runs \<open>N\<close> iterations, \<open>1 \<le> N \<le> max_iter\<close>,
  and \<open>loglike_\<close> holds their \<open>N\<close> values. No iteration before the last satisfies
  \<open>ll - old_ll < tol\<close>; either the last one does and no warning is emitted, or it does
  not, \<open>N = max_iter\<close> and the warning is emitted. The test never fires in the first
  iteration, where \<open>old_ll\<close> is \<open>-inf\<close>, and afterwards it is the comparison of the
  difference of two consecutive log-likelihoods with \<open>tol\<close>. A strict decrease fires it
  provided \<open>tol\<close> is not negative.
\<close>

theorem em_stops_at_first_firing:
  assumes v: "valid_cfg cfg X" and pos: "0 < max_iter cfg"
  shows "(\<exists>N. 0 < N \<and> N \<le> nat (max_iter cfg) \<and>
            loglike_attr (self_after (fit bk cfg self g X)) =
              Some (map (ll_iter bk cfg g X) [0..<N]) \<and>
            (\<forall>i. Suc i < N \<longrightarrow> \<not> fires_at bk cfg g X i) \<and>
            (if fires_at bk cfg g X (N - 1) then warned (fit bk cfg self g X) = []
             else N = nat (max_iter cfg) \<and>
                  warned (fit bk cfg self g X) = [ConvergenceWarning])) \<and>
         \<not> fires_at bk cfg g X 0 \<and>
         (\<forall>j. fires_at bk cfg g X (Suc j) =
                (ll_iter bk cfg g X (Suc j) - ll_iter bk cfg g X j < tol cfg)) \<and>
         (\<forall>j. 0 \<le> tol cfg \<longrightarrow> ll_iter bk cfg g X (Suc j) < ll_iter bk cfg g X j \<longrightarrow>
                fires_at bk cfg g X (Suc j))"
proof -
  have run: "\<exists>N. 0 < N \<and> N \<le> nat (max_iter cfg) \<and>
            loglike_attr (self_after (fit bk cfg self g X)) =
              Some (map (ll_iter bk cfg g X) [0..<N]) \<and>
            (\<forall>i. Suc i < N \<longrightarrow> \<not> fires_at bk cfg g X i) \<and>
            (if fires_at bk cfg g X (N - 1) then warned (fit bk cfg self g X) = []
             else N = nat (max_iter cfg) \<and>
                  warned (fit bk cfg self g X) = [ConvergenceWarning])"
  proof (rule fit_run_cases[OF v pos, where bk = bk and g = g and self = self], goal_cases)
    case (1 k)
    show ?case
      by (rule exI[of _ "Suc k"]) (use 1 in \<open>simp del: upt_Suc\<close>)
  next
    case 2
    have m: "0 < nat (max_iter cfg)" using pos by simp
    then have "\<not> fires_at bk cfg g X (nat (max_iter cfg) - 1)"
      using 2(1)[of "nat (max_iter cfg) - 1"] by simp
    then show ?case
      using m 2 by (intro exI[of _ "nat (max_iter cfg)"]) simp
  qed
  have dec: "fires_at bk cfg g X (Suc j)"
    if "0 \<le> tol cfg" "ll_iter bk cfg g X (Suc j) < ll_iter bk cfg g X j" for j
    using that by (simp add: fires_at_Suc)
  show ?thesis
    using run dec by (simp add: not_fires_at_0 fires_at_Suc)
qed

theorem em_stops_at_first_firing_witness:
  "valid_cfg lapack_cfg demo_X \<and> 0 < max_iter lapack_cfg \<and>
   (\<exists>N. 0 < N \<and> N \<le> nat (max_iter lapack_cfg) \<and>
        loglike_attr (self_after (fit demo_backend lapack_cfg unfitted 0 demo_X)) =
          Some (map (ll_iter demo_backend lapack_cfg 0 demo_X) [0..<N]) \<and>
        (\<forall>i. Suc i < N \<longrightarrow> \<not> fires_at demo_backend lapack_cfg 0 demo_X i) \<and>
        (if fires_at demo_backend lapack_cfg 0 demo_X (N - 1)
         then warned (fit demo_backend lapack_cfg unfitted 0 demo_X) = []
         else N = nat (max_iter lapack_cfg) \<and>
              warned (fit demo_backend lapack_cfg unfitted 0 demo_X) = [ConvergenceWarning])) \<and>
   \<not> fires_at demo_backend lapack_cfg 0 demo_X 0 \<and>
   fires_at demo_backend lapack_cfg 0 demo_X (Suc 0)"
  using em_stops_at_first_firing[OF demo_valid(1) demo_valid(2), of demo_backend unfitted 0]
    demo_valid(1) demo_valid(2) demo_fires[of 0]
  by blast

section \<open>The loading matrix and the log-likelihood of an iteration\<close>

lemma row_update_eq: "V\<lparr>row_list := r\<rparr> = \<lparr>n_cols = n_cols V, row_list = r\<rparr>"
  by (cases V) simp

lemma loading_rows:
  "map (\<lambda>r. map2 (*) r (map f p)) (map2 (\<lambda>a r. map (\<lambda>x. a * x) r) (map h s) rows) =
   map2 (\<lambda>\<sigma> v. map2 (\<lambda>x q. h \<sigma> * x * f q) v p) s rows"
  by (simp add: zip_map1 zip_map2 case_prod_beta)

lemma em_iter_fit:
  "em_iter (fit_env bk cfg X) p g =
     (case fit_svd bk cfg X
             (div_vec (centered X) (map (\<lambda>q. (sqrt q + SMALL) * sqrt (real (n_rows X))) p)) g of
        ((s, V, u), g') \<Rightarrow>
          ((\<lparr>n_cols = n_cols V,
             row_list = map2 (\<lambda>\<sigma> v. map2 (\<lambda>x q. sqrt (max (\<sigma>\<^sup>2 - 1) 0) * x * (sqrt q + SMALL)) v p)
                          s (row_list V)\<rparr>,
            - real (n_rows X) / 2 *
              (real (n_cols X) * ln (2 * pi) + real (resolve_n_components cfg X) +
               (\<Sum>x\<leftarrow>s. ln (x\<^sup>2)) + u + (\<Sum>q\<leftarrow>p. ln q))),
           g'))"
proof -
  have w: "map (\<lambda>x. x * sqrt (real (n_rows X))) (map (\<lambda>x. sqrt x + SMALL) p) =
           map (\<lambda>q. (sqrt q + SMALL) * sqrt (real (n_rows X))) p"
    by simp
  have l: "mul_vec (scale_rows (map (\<lambda>x. sqrt (max (x\<^sup>2 - 1) 0)) s) V)
             (map (\<lambda>x. sqrt x + SMALL) p) =
           \<lparr>n_cols = n_cols V,
            row_list = map2 (\<lambda>\<sigma> v. map2 (\<lambda>x q. sqrt (max (\<sigma>\<^sup>2 - 1) 0) * x * (sqrt q + SMALL)) v p)
                          s (row_list V)\<rparr>" for s V
    using loading_rows[of "\<lambda>x. sqrt x + SMALL" p "\<lambda>\<sigma>. sqrt (max (\<sigma>\<^sup>2 - 1) 0)" s "row_list V"]
    by (simp add: mul_vec_def scale_rows_def map_rows_def row_update_eq o_def)
  have a: "(c + t + (u + r)) * (- n / 2) = - n / 2 * (c + t + u + r)" for c t u r n :: real
    by (simp add: algebra_simps)
  obtain s V u g' where d: "fit_svd bk cfg X
             (div_vec (centered X) (map (\<lambda>q. (sqrt q + SMALL) * sqrt (real (n_rows X))) p)) g =
             ((s, V, u), g')"
    by (metis prod_cases3 surj_pair)
  have e: "e_svd (fit_env bk cfg X) = fit_svd bk cfg X" "e_X (fit_env bk cfg X) = centered X"
    "e_nsqrt (fit_env bk cfg X) = sqrt (real (n_rows X))"
    "e_llconst (fit_env bk cfg X) =
       real (n_cols X) * ln (2 * pi) + real (resolve_n_components cfg X)"
    "e_n_samples (fit_env bk cfg X) = n_rows X"
    by (simp_all add: fit_env_def mk_env_def)
  show ?thesis
    unfolding em_iter_def Let_def w e d
    by (simp only: prod.case l a list.map_comp o_def)
qed

lemma W_iter_formula:
  "(case svd_iter bk cfg g X i of
      (s, V, u) \<Rightarrow>
        W_iter bk cfg g X i =
          \<lparr>n_cols = n_cols V,
           row_list = map2 (\<lambda>\<sigma> v. map2 (\<lambda>x q. sqrt (max (\<sigma>\<^sup>2 - 1) 0) * x * (sqrt q + SMALL)) v
                                     (psi_read bk cfg g X i))
                        s (row_list V)\<rparr>)"
  by (simp add: W_iter_def W_at_def svd_iter_def whitened_def psi_read_def rs_read_def em_iter_fit
        split: prod.splits)

lemma ll_iter_formula:
  "(case svd_iter bk cfg g X i of
      (s, V, u) \<Rightarrow>
        ll_iter bk cfg g X i =
          - real (n_rows X) / 2 *
            (real (n_cols X) * ln (2 * pi) + real (resolve_n_components cfg X) +
             (\<Sum>x\<leftarrow>s. ln (x\<^sup>2)) + u + (\<Sum>q\<leftarrow>psi_read bk cfg g X i. ln q)))"
  by (simp add: ll_iter_def ll_at_def svd_iter_def whitened_def psi_read_def rs_read_def em_iter_fit
        split: prod.splits)

lemma fit_loglike:
  assumes v: "valid_cfg cfg X" and pos: "0 < max_iter cfg"
  shows "\<exists>N. 0 < N \<and> N \<le> nat (max_iter cfg) \<and> raised (fit bk cfg self g X) = None \<and>
           loglike_attr (self_after (fit bk cfg self g X)) =
             Some (map (ll_iter bk cfg g X) [0..<N]) \<and>
           components_attr (self_after (fit bk cfg self g X)) = Some (W_iter bk cfg g X (N - 1))"
proof (rule fit_run_cases[OF v pos, where bk = bk and g = g and self = self], goal_cases)
  case (1 k)
  show ?case by (rule exI[of _ "Suc k"]) (use 1 in \<open>simp del: upt_Suc\<close>)
next
  case 2
  show ?case by (rule exI[of _ "nat (max_iter cfg)"]) (use 2 pos in simp)
qed


text \<open>
  Claim C3. Every value of \<open>loglike_\<close> is \<open>-n_samples / 2\<close> times the sum of
  \<open>n_features * log (2 * pi) + n_components\<close>, of \<open>log (s\<^sup>2)\<close> over the singular values
  the decomposition of the whitened data returned in that iteration, of the unexplained
  variance it returned, and of \<open>log psi\<close> over the noise variances the iteration read.
\<close>

theorem loglike_formula:
  assumes v: "valid_cfg cfg X" and pos: "0 < max_iter cfg"
  shows "\<exists>L. loglike_attr (self_after (fit bk cfg self g X)) = Some L \<and> L \<noteq> [] \<and>
           (\<forall>i<length L.
              case svd_iter bk cfg g X i of
                (s, V, unexp_var) \<Rightarrow>
                  L ! i = - real (n_rows X) / 2 *
                    (real (n_cols X) * ln (2 * pi) + real (resolve_n_components cfg X) +
                     (\<Sum>x\<leftarrow>s. ln (x\<^sup>2)) + unexp_var +
                     (\<Sum>q\<leftarrow>psi_read bk cfg g X i. ln q)))"
proof -
  from fit_loglike[OF v pos, of bk self g]
  obtain N where N: "0 < N"
    "loglike_attr (self_after (fit bk cfg self g X)) = Some (map (ll_iter bk cfg g X) [0..<N])"
    by blast
  show ?thesis
  proof (intro exI[of _ "map (ll_iter bk cfg g X) [0..<N]"] conjI allI impI)
    show "loglike_attr (self_after (fit bk cfg self g X)) = Some (map (ll_iter bk cfg g X) [0..<N])"
      by (rule N(2))
    show "map (ll_iter bk cfg g X) [0..<N] \<noteq> []" using N(1) by simp
  next
    fix i assume "i < length (map (ll_iter bk cfg g X) [0..<N])"
    then have "map (ll_iter bk cfg g X) [0..<N] ! i = ll_iter bk cfg g X i" by simp
    then show "case svd_iter bk cfg g X i of
                (s, V, unexp_var) \<Rightarrow>
                  map (ll_iter bk cfg g X) [0..<N] ! i = - real (n_rows X) / 2 *
                    (real (n_cols X) * ln (2 * pi) + real (resolve_n_components cfg X) +
                     (\<Sum>x\<leftarrow>s. ln (x\<^sup>2)) + unexp_var +
                     (\<Sum>q\<leftarrow>psi_read bk cfg g X i. ln q))"
      using ll_iter_formula[of bk cfg g X i] by (simp split: prod.splits)
  qed
qed


theorem loglike_formula_witness:
  "valid_cfg lapack_cfg demo_X \<and> 0 < max_iter lapack_cfg \<and>
   (\<exists>L. loglike_attr (self_after (fit demo_backend lapack_cfg unfitted 0 demo_X)) = Some L \<and>
        L \<noteq> [] \<and>
        (\<forall>i<length L.
           case svd_iter demo_backend lapack_cfg 0 demo_X i of
             (s, V, unexp_var) \<Rightarrow>
               L ! i = - real (n_rows demo_X) / 2 *
                 (real (n_cols demo_X) * ln (2 * pi) + real (resolve_n_components lapack_cfg demo_X) +
                  (\<Sum>x\<leftarrow>s. ln (x\<^sup>2)) + unexp_var +
                  (\<Sum>q\<leftarrow>psi_read demo_backend lapack_cfg 0 demo_X i. ln q))))"
  using loglike_formula[OF demo_valid(1) demo_valid(2), of demo_backend unfitted 0]
    demo_valid(1) demo_valid(2)
  by blast

text \<open>
  Claim C4. The loading matrix of an iteration has, for each retained component, the
  row \<open>sqrt (max (s\<^sup>2 - 1) 0)\<close> times the right-singular vector, and each entry of that row
  is multiplied by \<open>sqrt psi + SMALL\<close> of its feature: the quantity the data were divided
  by (together with \<open>sqrt n_samples\<close>) before the decomposition. \<open>components_\<close> is the
  loading matrix of the last iteration that ran.
\<close>

theorem loading_formula:
  assumes v: "valid_cfg cfg X" and pos: "0 < max_iter cfg"
  shows "(\<forall>i. case svd_iter bk cfg g X i of
              (s, V, unexp_var) \<Rightarrow>
                W_iter bk cfg g X i =
                  \<lparr>n_cols = n_cols V,
                   row_list =
                     map2 (\<lambda>\<sigma> v. map2 (\<lambda>x q. sqrt (max (\<sigma>\<^sup>2 - 1) 0) * x * (sqrt q + SMALL)) v
                                      (psi_read bk cfg g X i))
                       s (row_list V)\<rparr>) \<and>
         (\<forall>i. whitened bk cfg g X i =
              div_vec (centered X)
                (map (\<lambda>q. (sqrt q + SMALL) * sqrt (real (n_rows X))) (psi_read bk cfg g X i))) \<and>
         (\<exists>L. loglike_attr (self_after (fit bk cfg self g X)) = Some L \<and> L \<noteq> [] \<and>
              components_attr (self_after (fit bk cfg self g X)) =
                Some (W_iter bk cfg g X (length L - 1)))"
proof -
  from fit_loglike[OF v pos, of bk self g]
  obtain N where N: "0 < N"
    "loglike_attr (self_after (fit bk cfg self g X)) = Some (map (ll_iter bk cfg g X) [0..<N])"
    "components_attr (self_after (fit bk cfg self g X)) = Some (W_iter bk cfg g X (N - 1))"
    by blast
  have "\<exists>L. loglike_attr (self_after (fit bk cfg self g X)) = Some L \<and> L \<noteq> [] \<and>
              components_attr (self_after (fit bk cfg self g X)) =
                Some (W_iter bk cfg g X (length L - 1))"
    by (rule exI[of _ "map (ll_iter bk cfg g X) [0..<N]"]) (use N in simp)
  then show ?thesis
    using W_iter_formula[of bk cfg g X] by (simp add: whitened_def)
qed

theorem loading_formula_witness:
  "valid_cfg lapack_cfg demo_X \<and> 0 < max_iter lapack_cfg \<and>
   W_iter demo_backend lapack_cfg 0 demo_X 0 = \<lparr>n_cols = 1, row_list = [[0]]\<rparr> \<and>
   (\<exists>L. loglike_attr (self_after (fit demo_backend lapack_cfg unfitted 0 demo_X)) = Some L \<and>
        L \<noteq> [] \<and>
        components_attr (self_after (fit demo_backend lapack_cfg unfitted 0 demo_X)) =
          Some (W_iter demo_backend lapack_cfg 0 demo_X (length L - 1)))"
  using loading_formula[OF demo_valid(1) demo_valid(2), of demo_backend 0 unfitted]
    demo_valid(1) demo_valid(2) demo_W_iter[of 0 0]
  by simp

section \<open>The floor of the noise variance\<close>

lemma e_var_fit_env: "e_var (fit_env bk cfg X) = var0 (centered X)"
  by (simp add: fit_env_def mk_env_def)

lemma psi_read_0: "psi_read bk cfg g X 0 = fit_psi0 cfg X"
  by (simp add: psi_read_def em_state_0 fit_start_def)

lemma psi_read_Suc:
  "psi_read bk cfg g X (Suc i) = noise_update (var0 (centered X)) (W_iter bk cfg g X i)"
  by (simp add: psi_read_def em_state_Suc em_step_def W_iter_def W_at_def e_var_fit_env
        case_prod_beta)

lemma noise_update_floor: "list_all (\<lambda>q. SMALL \<le> q) (noise_update v Wm)"
  by (simp add: noise_update_def list_all_iff)

lemma fit_invalid:
  assumes "\<not> valid_cfg cfg X"
  shows "raised (fit bk cfg self g X) = Some ValueError"
  using assms by (auto simp: valid_cfg_def fit_def Let_def split: option.splits)

lemma fit_raised_None:
  assumes "raised (fit bk cfg self g X) = None"
  shows "valid_cfg cfg X \<and> 0 < max_iter cfg"
proof -
  have v: "valid_cfg cfg X" using assms fit_invalid[of cfg X bk self g] by auto
  have "0 < max_iter cfg"
  proof (rule ccontr)
    assume "\<not> 0 < max_iter cfg"
    then have "max_iter cfg \<le> 0" by simp
    from fit_no_iteration[OF v this, of bk self g] assms show False by simp
  qed
  with v show ?thesis by simp
qed

text \<open>
  Claim C5, as amended. The statement is about initial noise variances without a
  negative entry (for a negative one \<open>np.sqrt\<close> gives \<open>nan\<close>, which this model of floats
  does not have). The first iteration reads the initial noise variance as it was
  supplied (all ones without \<open>noise_variance_init\<close>): nothing clamps it. Every noise
  variance an iteration computes, hence every one a later iteration reads, is at least
  \<open>SMALL\<close>, and so is every entry of the \<open>noise_variance_\<close> of a call that returns.
  A call with a supplied vector of the right length, a supported \<open>svd_method\<close> and
  \<open>max_iter > 0\<close> returns: no entry of the initial vector is rejected. \<open>SMALL\<close> is
  positive.
\<close>

theorem noise_variance_floor:
  assumes nn: "list_all (\<lambda>q. 0 \<le> q) (fit_psi0 cfg X)"
  shows "psi_read bk cfg g X 0 =
           (case noise_variance_init cfg of None \<Rightarrow> replicate (n_cols X) 1 | Some v \<Rightarrow> v) \<and>
         (\<forall>i. list_all (\<lambda>q. SMALL \<le> q) (psi_read bk cfg g X (Suc i))) \<and>
         (raised (fit bk cfg self g X) = None \<longrightarrow>
            (\<exists>p. noise_variance_attr (self_after (fit bk cfg self g X)) = Some p \<and>
                 list_all (\<lambda>q. SMALL \<le> q) p)) \<and>
         (valid_cfg cfg X \<and> 0 < max_iter cfg \<longrightarrow> raised (fit bk cfg self g X) = None) \<and>
         0 < SMALL"
proof -
  have stored: "\<exists>p. noise_variance_attr (self_after (fit bk cfg self g X)) = Some p \<and>
           list_all (\<lambda>q. SMALL \<le> q) p" if r: "raised (fit bk cfg self g X) = None"
  proof -
    from fit_raised_None[OF r] have v: "valid_cfg cfg X" and pos: "0 < max_iter cfg" by simp_all
    show ?thesis
    proof (rule fit_run_cases[OF v pos, where bk = bk and g = g and self = self], goal_cases)
      case (1 k)
      have "k \<noteq> 0" using 1(2) not_fires_at_0[of bk cfg g X] by (cases "k = 0") simp_all
      then obtain j where "k = Suc j" by (cases k) auto
      then show ?case using 1(4) by (simp add: psi_read_Suc noise_update_floor)
    next
      case 2
      obtain j where "nat (max_iter cfg) = Suc j" using pos by (cases "nat (max_iter cfg)") auto
      then show ?case using 2(2) by (simp add: psi_read_Suc noise_update_floor)
    qed
  qed
  have accepted: "raised (fit bk cfg self g X) = None" if "valid_cfg cfg X" "0 < max_iter cfg"
    using fit_loglike[OF that, of bk self g] by blast
  show ?thesis
    using stored accepted
    by (simp add: psi_read_0 fit_psi0_def psi_read_Suc noise_update_floor SMALL_pos)
qed

lemma zero_init_valid: "valid_cfg zero_init_cfg demo_X" "0 < max_iter zero_init_cfg"
  "list_all (\<lambda>q. 0 \<le> q) (fit_psi0 zero_init_cfg demo_X)"
  by (simp_all add: valid_cfg_def zero_init_cfg_def lapack_cfg_def default_cfg_def shape_demo_X
        fit_psi0_def)

lemma zero_init_raised: "raised (fit demo_backend zero_init_cfg unfitted 0 demo_X) = None"
  using fit_loglike[OF zero_init_valid(1) zero_init_valid(2), of demo_backend unfitted 0] by blast

theorem noise_variance_floor_witness:
  "list_all (\<lambda>q. 0 \<le> q) (fit_psi0 zero_init_cfg demo_X) \<and>
   valid_cfg zero_init_cfg demo_X \<and> 0 < max_iter zero_init_cfg \<and>
   psi_read demo_backend zero_init_cfg 0 demo_X 0 = [0] \<and>
   raised (fit demo_backend zero_init_cfg unfitted 0 demo_X) = None \<and>
   (\<exists>p. noise_variance_attr (self_after (fit demo_backend zero_init_cfg unfitted 0 demo_X)) = Some p \<and>
        list_all (\<lambda>q. SMALL \<le> q) p) \<and>
   list_all (\<lambda>q. SMALL \<le> q) (psi_read demo_backend zero_init_cfg 0 demo_X (Suc 0))"
proof -
  have i: "noise_variance_init zero_init_cfg = Some [0]"
    by (simp add: zero_init_cfg_def)
  show ?thesis
    using noise_variance_floor[OF zero_init_valid(3), of demo_backend 0 unfitted] zero_init_valid
    by (simp add: i)
qed

text \<open>
  The claim as stated fails on a call of \<open>fit\<close> with \<open>noise_variance_init = [0]\<close> and
  \<open>max_iter = 1\<close> on \<open>demo_X\<close>: the call returns, and the noise variance its first
  iteration reads is \<open>[0]\<close>, below the floor.
\<close>

theorem initial_noise_variance_counterexample:
  "raised (fit demo_backend zero_init_cfg unfitted 0 demo_X) = None \<and>
   psi_read demo_backend zero_init_cfg 0 demo_X 0 = [0] \<and>
   \<not> list_all (\<lambda>q. SMALL \<le> q) (psi_read demo_backend zero_init_cfg 0 demo_X 0)"
proof -
  have "psi_read demo_backend zero_init_cfg 0 demo_X 0 = [0]"
    by (simp add: psi_read_0 fit_psi0_def zero_init_cfg_def)
  then show ?thesis using zero_init_raised SMALL_pos by simp
qed

section \<open>Shapes\<close>

lemma length_sum0: "length (sum0 A) = n_cols A"
  by (simp add: sum0_def)

lemma length_mean0: "length (mean0 A) = n_cols A"
  by (simp add: mean0_def length_sum0)

lemma n_cols_map_rows: "n_cols (map_rows f A) = n_cols A"
  by (simp add: map_rows_def)

lemma n_cols_centered: "n_cols (centered X) = n_cols X"
  by (simp add: centered_def sub_vec_def n_cols_map_rows)

lemma length_var0: "length (var0 A) = n_cols A"
  by (simp add: var0_def length_mean0 square_def sub_vec_def n_cols_map_rows)

lemma length_noise_update: "length (noise_update v Wm) = min (length v) (n_cols Wm)"
  by (simp add: noise_update_def length_sum0 square_def n_cols_map_rows)

lemma n_cols_whitened: "n_cols (whitened bk cfg g X i) = n_cols X"
  by (simp add: whitened_def div_vec_def n_cols_map_rows n_cols_centered)

lemma length_fit_psi0: "valid_cfg cfg X \<Longrightarrow> length (fit_psi0 cfg X) = n_cols X"
  by (auto simp: valid_cfg_def fit_psi0_def split: option.splits)

lemma svd_iter_vectors:
  assumes "svd_vectors_ok bk cfg X"
  shows "case svd_iter bk cfg g X i of (s, V, u) \<Rightarrow> n_cols V = n_cols X \<and> rect V"
  using assms[unfolded svd_vectors_ok_def, rule_format, OF n_cols_whitened[of bk cfg g X i]]
  unfolding svd_iter_def .



lemma W_iter_n_cols:
  assumes "svd_vectors_ok bk cfg X"
  shows "n_cols (W_iter bk cfg g X i) = n_cols X"
proof -
  obtain s V u where d: "svd_iter bk cfg g X i = (s, V, u)" by (rule prod_cases3)
  show ?thesis
    using svd_iter_vectors[OF assms, of g i] W_iter_formula[of bk cfg g X i]
    unfolding d by simp
qed

lemma length_psi_read:
  assumes "valid_cfg cfg X" "svd_vectors_ok bk cfg X"
  shows "length (psi_read bk cfg g X i) = n_cols X"
proof (cases i)
  case 0
  then show ?thesis using assms(1) by (simp add: psi_read_0 length_fit_psi0)
next
  case (Suc j)
  then show ?thesis
    by (simp add: psi_read_Suc length_noise_update length_var0 n_cols_centered
          W_iter_n_cols[OF assms(2)])
qed

lemma rect_loading:
  assumes "list_all (\<lambda>r. length r = n) rows" "length p = n"
  shows "list_all (\<lambda>r. length r = n) (map2 (\<lambda>\<sigma> v. map2 (f \<sigma>) v p) s rows)"
proof -
  have "length (map2 (f a) v p) = n" if "(a, v) \<in> set (zip s rows)" for a v
  proof -
    have "v \<in> set rows" using that by (rule set_zip_rightD)
    then have "length v = n" using assms(1) by (simp add: list_all_iff)
    then show ?thesis using assms(2) by simp
  qed
  then show ?thesis by (auto simp: list_all_iff)
qed

lemma W_iter_rect:
  assumes "valid_cfg cfg X" "svd_vectors_ok bk cfg X"
  shows "rect (W_iter bk cfg g X i)"
proof -
  obtain s V u where d: "svd_iter bk cfg g X i = (s, V, u)" by (rule prod_cases3)
  have V: "n_cols V = n_cols X" "rect V"
    using svd_iter_vectors[OF assms(2), of g i] unfolding d by simp_all
  have len: "length (psi_read bk cfg g X i) = n_cols V"
    using length_psi_read[OF assms, of g i] V(1) by simp
  have W: "W_iter bk cfg g X i =
          \<lparr>n_cols = n_cols V,
           row_list = map2 (\<lambda>\<sigma> v. map2 (\<lambda>x q. sqrt (max (\<sigma>\<^sup>2 - 1) 0) * x * (sqrt q + SMALL)) v
                                     (psi_read bk cfg g X i))
                        s (row_list V)\<rparr>"
    using W_iter_formula[of bk cfg g X i] unfolding d by simp
  show ?thesis
    unfolding W rect_def
    using rect_loading[OF V(2)[unfolded rect_def] len,
        of "\<lambda>\<sigma> x q. sqrt (max (\<sigma>\<^sup>2 - 1) 0) * x * (sqrt q + SMALL)" s]
    by simp
qed


lemma demo_fit_svd:
  "svd_method cfg = ''lapack'' \<or> svd_method cfg = ''randomized'' \<Longrightarrow>
   n_components cfg = None \<Longrightarrow>
   fst (fit_svd demo_backend cfg demo_X M g) =
     ([sqrt (dot1 (flat M) (flat M))], \<lparr>n_cols = 1, row_list = [[1]]\<rparr>,
      if svd_method cfg = ''lapack'' then 0
      else dot1 (flat M) (flat M) - dot1 [sqrt (dot1 (flat M) (flat M))] [sqrt (dot1 (flat M) (flat M))])"
  by (auto simp: fit_svd_def my_svd_lapack_def my_svd_randomized_def demo_backend_def
        column_svd_def resolve_n_components_def shape_demo_X dot1_def)

lemma demo_counts: "svd_counts_ok demo_backend demo_X"
  unfolding svd_counts_ok_def
  by (auto simp: demo_backend_def column_svd_def demo_X_def n_rows_def)

lemma demo_contract:
  assumes "svd_method cfg = ''lapack'' \<or> svd_method cfg = ''randomized''"
    and "n_components cfg = None"
  shows "svd_vectors_ok demo_backend cfg demo_X"
  unfolding svd_vectors_ok_def
  by (simp add: demo_fit_svd[OF assms] shape_demo_X rect_def)


section \<open>Data with one feature, whatever the noise variance\<close>

text \<open>
  The centered \<open>demo_X\<close> is the column \<open>(-1, 1)\<close>. Divided by \<open>c * sqrt 2\<close> it has the
  single singular value \<open>1 / c\<close>, so that an iteration that reads the noise variance \<open>[q]\<close>
  is known in closed form.
\<close>

lemma demo_column_norm:
  "dot1 (flat (div_vec \<lparr>n_cols = Suc 0, row_list = [[-1], [1]]\<rparr> [c * sqrt 2]))
        (flat (div_vec \<lparr>n_cols = Suc 0, row_list = [[-1], [1]]\<rparr> [c * sqrt 2])) = (1 / c)\<^sup>2"
proof -
  define d where "d = c * sqrt 2"
  have d2: "d\<^sup>2 = 2 * c\<^sup>2" by (simp add: d_def power_mult_distrib)
  have "dot1 (flat (div_vec \<lparr>n_cols = Suc 0, row_list = [[-1], [1]]\<rparr> [d]))
             (flat (div_vec \<lparr>n_cols = Suc 0, row_list = [[-1], [1]]\<rparr> [d])) = 2 / d\<^sup>2"
    by (simp add: div_vec_def map_rows_def flat_def dot1_def power2_eq_square)
  also have "\<dots> = (1 / c)\<^sup>2"
    unfolding d2 by (simp add: power_divide)
  finally show ?thesis unfolding d_def .
qed

lemma demo_column_svd:
  assumes c: "0 < c" and k: "0 < k"
  shows "my_svd_lapack demo_backend k
           (div_vec \<lparr>n_cols = Suc 0, row_list = [[-1], [1]]\<rparr> [c * sqrt 2]) g =
         (([1 / c], \<lparr>n_cols = 1, row_list = [[1]]\<rparr>, 0), g)"
proof -
  obtain j where j: "k = Suc j" using k by (cases k) auto
  have p: "0 \<le> 1 / c" "\<bar>c\<bar> = c" using c by simp_all
  show ?thesis
    by (simp add: my_svd_lapack_def demo_backend_def column_svd_def demo_column_norm
          real_sqrt_abs p j)
      (simp add: dot1_def)
qed

lemma demo_svd_iter:
  assumes m: "svd_method cfg = ''lapack''" and k: "0 < resolve_n_components cfg demo_X"
    and p: "psi_read demo_backend cfg g demo_X i = [q]" and q: "0 \<le> q"
  shows "svd_iter demo_backend cfg g demo_X i =
           ([1 / (sqrt q + SMALL)], \<lparr>n_cols = 1, row_list = [[1]]\<rparr>, 0)"
proof -
  have c: "0 < sqrt q + SMALL" using q SMALL_pos by (simp add: add_nonneg_pos)
  show ?thesis
    by (simp add: svd_iter_def whitened_def p centered_demo_X shape_demo_X fit_svd_def m
          demo_column_svd[OF c k])
qed

lemma demo_iteration:
  assumes m: "svd_method cfg = ''lapack''" and k: "0 < resolve_n_components cfg demo_X"
    and p: "psi_read demo_backend cfg g demo_X i = [q]" and q: "0 \<le> q"
  shows "W_iter demo_backend cfg g demo_X i =
           \<lparr>n_cols = 1,
            row_list = [[sqrt (max ((1 / (sqrt q + SMALL))\<^sup>2 - 1) 0) * (sqrt q + SMALL)]]\<rparr>"
    and "ll_iter demo_backend cfg g demo_X i =
           - (ln (2 * pi) + real (resolve_n_components cfg demo_X) +
              ln ((1 / (sqrt q + SMALL))\<^sup>2) + ln q)"
    and "psi_read demo_backend cfg g demo_X (Suc i) =
           [max (1 - (sqrt (max ((1 / (sqrt q + SMALL))\<^sup>2 - 1) 0) * (sqrt q + SMALL))\<^sup>2) SMALL]"
proof -
  note s = demo_svd_iter[OF m k p q]
  show W: "W_iter demo_backend cfg g demo_X i =
           \<lparr>n_cols = 1,
            row_list = [[sqrt (max ((1 / (sqrt q + SMALL))\<^sup>2 - 1) 0) * (sqrt q + SMALL)]]\<rparr>"
    using W_iter_formula[of demo_backend cfg g demo_X i] by (simp add: s p)
  show "ll_iter demo_backend cfg g demo_X i =
           - (ln (2 * pi) + real (resolve_n_components cfg demo_X) +
              ln ((1 / (sqrt q + SMALL))\<^sup>2) + ln q)"
    using ll_iter_formula[of demo_backend cfg g demo_X i] by (simp add: s p shape_demo_X)
  show "psi_read demo_backend cfg g demo_X (Suc i) =
           [max (1 - (sqrt (max ((1 / (sqrt q + SMALL))\<^sup>2 - 1) 0) * (sqrt q + SMALL))\<^sup>2) SMALL]"
    by (simp add: psi_read_Suc W centered_demo_X var0_centered_demo_X noise_update_def sum0_def
          square_def map_rows_def)
qed

section \<open>A decrease of the log-likelihood that does not stop the loop\<close>

text \<open>
  The call \<open>fit\<close> on \<open>demo_X\<close> with the exact decomposition, \<open>tol = -2\<close> and
  \<open>noise_variance_init = [SMALL\<^sup>2]\<close>. The first iteration divides by
  \<open>sqrt psi + SMALL = 2 * SMALL\<close>: the singular value is \<open>1 / (2 * SMALL)\<close>, the
  log-likelihood \<open>-(ln (2 pi) + 1 + ln (1 / 4))\<close> and the next noise variance
  \<open>max (4 * SMALL\<^sup>2) SMALL = SMALL\<close>. The second iteration divides by
  \<open>sqrt SMALL + SMALL\<close>, and its log-likelihood is
  \<open>-(ln (2 pi) + 1 + ln (10\<^sup>1\<^sup>2 / (10\<^sup>6 + 1)\<^sup>2))\<close>, smaller by about \<open>1.39\<close>.
\<close>

lemma neg_tol_facts:
  "valid_cfg neg_tol_cfg demo_X" "0 < max_iter neg_tol_cfg"
  "nat (max_iter neg_tol_cfg) = 1000" "svd_method neg_tol_cfg = ''lapack''"
  "0 < resolve_n_components neg_tol_cfg demo_X" "tol neg_tol_cfg = - 2"
  "real (resolve_n_components neg_tol_cfg demo_X) = 1"
  "noise_variance_init neg_tol_cfg = Some [1 / 10 ^ 24]"
  by (simp_all add: neg_tol_cfg_def lapack_cfg_def default_cfg_def valid_cfg_def
        resolve_n_components_def shape_demo_X)

lemma SMALL_roots: "sqrt (1 / 10 ^ 24) = SMALL" "sqrt SMALL = 1 / 10 ^ 6"
proof -
  have "(1 / 10 ^ 24 :: real) = SMALL\<^sup>2" by (simp add: SMALL_def power2_eq_square)
  then have "sqrt (1 / 10 ^ 24) = \<bar>SMALL\<bar>" by (simp only: real_sqrt_abs)
  then show "sqrt (1 / 10 ^ 24) = SMALL" using SMALL_pos by (simp only: abs_of_pos)
  have e: "(1 / 10 ^ 6 :: real)\<^sup>2 = SMALL" by (simp add: SMALL_def power2_eq_square)
  show "sqrt SMALL = 1 / 10 ^ 6"
    using real_sqrt_abs[of "1 / 10 ^ 6"] unfolding e by simp
qed

lemma neg_tol_psi0: "psi_read demo_backend neg_tol_cfg g demo_X 0 = [1 / 10 ^ 24]"
  by (simp add: psi_read_0 fit_psi0_def neg_tol_facts(8))

lemma neg_tol_first:
  "ll_iter demo_backend neg_tol_cfg g demo_X 0 = - (ln (2 * pi) + 1 + ln (1 / 4))"
  "psi_read demo_backend neg_tol_cfg g demo_X (Suc 0) = [SMALL]"
proof -
  have q: "(0::real) \<le> 1 / 10 ^ 24" by simp
  note it = demo_iteration[OF neg_tol_facts(4) neg_tol_facts(5) neg_tol_psi0 q, of g]
  have s: "(1 / (SMALL + SMALL))\<^sup>2 = 1 / (4 * SMALL\<^sup>2)"
    by (simp add: power2_eq_square)
  have q2: "(1 / 10 ^ 24 :: real) = SMALL\<^sup>2" by (simp add: SMALL_def power2_eq_square)
  have "ln ((1 / (SMALL + SMALL))\<^sup>2) + ln (1 / 10 ^ 24) = ln (1 / (4 * SMALL\<^sup>2) * SMALL\<^sup>2)"
    unfolding s q2 using SMALL_pos by (subst ln_mult) simp_all
  also have "1 / (4 * SMALL\<^sup>2) * SMALL\<^sup>2 = 1 / 4" using SMALL_pos by simp
  finally have l: "ln ((1 / (SMALL + SMALL))\<^sup>2) + ln (1 / 10 ^ 24) = ln (1 / 4)" .
  show "ll_iter demo_backend neg_tol_cfg g demo_X 0 = - (ln (2 * pi) + 1 + ln (1 / 4))"
    unfolding it(2)[unfolded SMALL_roots(1) neg_tol_facts(7)] using l by linarith
  have big: "0 \<le> 1 / (4 * SMALL\<^sup>2) - 1" by (simp add: SMALL_def power2_eq_square)
  have "(sqrt (max ((1 / (SMALL + SMALL))\<^sup>2 - 1) 0) * (SMALL + SMALL))\<^sup>2 =
        (1 / (4 * SMALL\<^sup>2) - 1) * (SMALL + SMALL)\<^sup>2"
    unfolding s using big by (simp add: power_mult_distrib max_def)
  also have "\<dots> = 1 - 4 * SMALL\<^sup>2"
    using SMALL_pos by (simp add: field_simps power2_eq_square)
  finally have w: "(sqrt (max ((1 / (SMALL + SMALL))\<^sup>2 - 1) 0) * (SMALL + SMALL))\<^sup>2 =
        1 - 4 * SMALL\<^sup>2" .
  have m: "max (4 * SMALL\<^sup>2) SMALL = SMALL" by (simp add: SMALL_def power2_eq_square)
  show "psi_read demo_backend neg_tol_cfg g demo_X (Suc 0) = [SMALL]"
    using it(3) by (simp only: SMALL_roots(1) w) (simp add: m)
qed

lemma neg_tol_second:
  "ll_iter demo_backend neg_tol_cfg g demo_X (Suc 0) =
     - (ln (2 * pi) + 1 + ln (10 ^ 12 / (10 ^ 6 + 1)\<^sup>2))"
proof -
  have q: "0 \<le> SMALL" using SMALL_pos by simp
  note it = demo_iteration[OF neg_tol_facts(4) neg_tol_facts(5) neg_tol_first(2) q, of g]
  have c: "(1 / (1 / 10 ^ 6 + SMALL))\<^sup>2 = 10 ^ 24 / (10 ^ 6 + 1)\<^sup>2"
    by (simp add: SMALL_def power2_eq_square field_simps)
  have "ln ((1 / (1 / 10 ^ 6 + SMALL))\<^sup>2) + ln SMALL = ln (10 ^ 24 / (10 ^ 6 + 1)\<^sup>2 * SMALL)"
    unfolding c using SMALL_pos by (subst ln_mult) simp_all
  also have "10 ^ 24 / (10 ^ 6 + 1)\<^sup>2 * SMALL = 10 ^ 12 / (10 ^ 6 + 1)\<^sup>2"
    by (simp add: SMALL_def)
  finally have l: "ln ((1 / (1 / 10 ^ 6 + SMALL))\<^sup>2) + ln SMALL = ln (10 ^ 12 / (10 ^ 6 + 1)\<^sup>2)" .
  show ?thesis
    unfolding it(2)[unfolded SMALL_roots(2) neg_tol_facts(7)] using l by linarith
qed

lemma ln_quarter: "- 2 \<le> ln (1 / 4 :: real)"
proof -
  have "ln (2::real) \<le> 1" using ln_le_minus_one[of "2::real"] by simp
  moreover have "ln (4::real) = ln 2 + ln 2" using ln_mult[of "2::real" 2] by simp
  moreover have "ln (1 / 4 :: real) = - ln 4" by (simp add: ln_divide_pos)
  ultimately show ?thesis by simp
qed

lemma neg_tol_decrease:
  "ll_iter demo_backend neg_tol_cfg g demo_X (Suc 0) < ll_iter demo_backend neg_tol_cfg g demo_X 0"
  "\<not> fires_at demo_backend neg_tol_cfg g demo_X (Suc 0)"
proof -
  let ?r = "10 ^ 12 / (10 ^ 6 + 1)\<^sup>2 :: real"
  have r: "1 / 4 < ?r" "?r \<le> 1" by (simp_all add: power2_eq_square)
  have l1: "ln (1 / 4) < ln ?r" using r(1) by (subst ln_less_cancel_iff) simp_all
  have l2: "ln ?r \<le> 0" using r(2) by (subst ln_le_zero_iff) simp_all
  show "ll_iter demo_backend neg_tol_cfg g demo_X (Suc 0) < ll_iter demo_backend neg_tol_cfg g demo_X 0"
    unfolding neg_tol_first(1) neg_tol_second using l1 by linarith
  show "\<not> fires_at demo_backend neg_tol_cfg g demo_X (Suc 0)"
    unfolding fires_at_Suc neg_tol_first(1) neg_tol_second neg_tol_facts(6)
    using l2 ln_quarter by linarith
qed

lemma neg_tol_loglike:
  "\<exists>L. loglike_attr (self_after (fit demo_backend neg_tol_cfg unfitted 0 demo_X)) = Some L \<and>
       2 < length L \<and> L ! 0 = ll_iter demo_backend neg_tol_cfg 0 demo_X 0 \<and>
       L ! 1 = ll_iter demo_backend neg_tol_cfg 0 demo_X (Suc 0)"
proof (rule fit_run_cases[OF neg_tol_facts(1) neg_tol_facts(2),
         where bk = demo_backend and g = 0 and self = unfitted], goal_cases)
  case (1 k)
  have "k \<noteq> 0"
    using 1(2) not_fires_at_0[of demo_backend neg_tol_cfg 0 demo_X] by (cases "k = 0") simp_all
  moreover have "k \<noteq> Suc 0"
    using 1(2) neg_tol_decrease(2)[of 0] by (cases "k = Suc 0") simp_all
  ultimately have k: "2 \<le> k" by simp
  have n: "map f [0..<Suc k] ! 0 = f 0" "map f [0..<Suc k] ! 1 = f (Suc 0)" for f :: "nat \<Rightarrow> real"
    using k by (simp_all del: upt_Suc add: nth_map)
  show ?case
    using k by (simp add: 1(4) n del: upt_Suc)
next
  case 2
  have n: "map f [0..<1000] ! 0 = f 0" "map f [0..<1000] ! 1 = f (Suc 0)" for f :: "nat \<Rightarrow> real"
    by (simp_all add: nth_map)
  show ?case
    by (simp add: 2(2) neg_tol_facts(3) n)
qed

text \<open>
  The claim C2 as stated fails on that call: the log-likelihood of the second iteration
  is strictly below that of the first, the test \<open>ll - old_ll < tol\<close> does not fire, and
  the loop goes on, \<open>loglike_\<close> holding more than two values.
\<close>

theorem decrease_without_stop_counterexample:
  "valid_cfg neg_tol_cfg demo_X \<and> tol neg_tol_cfg = - 2 \<and>
   ll_iter demo_backend neg_tol_cfg 0 demo_X 0 = - (ln (2 * pi) + 1 + ln (1 / 4)) \<and>
   ll_iter demo_backend neg_tol_cfg 0 demo_X (Suc 0) =
     - (ln (2 * pi) + 1 + ln (10 ^ 12 / (10 ^ 6 + 1)\<^sup>2)) \<and>
   ll_iter demo_backend neg_tol_cfg 0 demo_X (Suc 0) < ll_iter demo_backend neg_tol_cfg 0 demo_X 0 \<and>
   \<not> fires_at demo_backend neg_tol_cfg 0 demo_X (Suc 0) \<and>
   (\<exists>L. loglike_attr (self_after (fit demo_backend neg_tol_cfg unfitted 0 demo_X)) = Some L \<and>
        2 < length L \<and> L ! 0 = ll_iter demo_backend neg_tol_cfg 0 demo_X 0 \<and>
        L ! 1 = ll_iter demo_backend neg_tol_cfg 0 demo_X (Suc 0))"
  using neg_tol_facts(1,6) neg_tol_first(1)[of 0] neg_tol_second[of 0] neg_tol_decrease[of 0]
    neg_tol_loglike
  by simp

section \<open>Exhausting the iterations\<close>









section \<open>Leaving the loop by the convergence test\<close>

text \<open>
  Claim C10. A call that emits no convergence warning has left the loop by \<open>break\<close>, in
  iteration \<open>k\<close>. It stores the loading matrix of iteration \<open>k\<close> and the noise variance
  that iteration read: the initial one for \<open>k = 0\<close>, else the update computed at the end
  of iteration \<open>k - 1\<close>. The update that belongs to the loading matrix of iteration \<open>k\<close>,
  the noise variance iteration \<open>k + 1\<close> would read, is not stored.
\<close>

theorem converged_fit_skips_last_update:
  assumes v: "valid_cfg cfg X" and w: "warned (fit bk cfg self g X) = []"
  shows "\<exists>k. raised (fit bk cfg self g X) = None \<and>
           loglike_attr (self_after (fit bk cfg self g X)) =
             Some (map (ll_iter bk cfg g X) [0..<Suc k]) \<and>
           fires_at bk cfg g X k \<and>
           components_attr (self_after (fit bk cfg self g X)) = Some (W_iter bk cfg g X k) \<and>
           noise_variance_attr (self_after (fit bk cfg self g X)) =
             Some (psi_read bk cfg g X k) \<and>
           psi_read bk cfg g X k =
             (case k of 0 \<Rightarrow> fit_psi0 cfg X
              | Suc j \<Rightarrow> noise_update (var0 (centered X)) (W_iter bk cfg g X j)) \<and>
           psi_read bk cfg g X (Suc k) =
             noise_update (var0 (centered X)) (W_iter bk cfg g X k)"
proof -
  have pos: "0 < max_iter cfg"
  proof (rule ccontr)
    assume "\<not> 0 < max_iter cfg"
    then have "max_iter cfg \<le> 0" by simp
    from fit_no_iteration[OF v this, of bk self g] w show False by simp
  qed
  show ?thesis
  proof (rule fit_run_cases[OF v pos, where bk = bk and g = g and self = self], goal_cases)
    case (1 k)
    have p: "psi_read bk cfg g X k =
             (case k of 0 \<Rightarrow> fit_psi0 cfg X
              | Suc j \<Rightarrow> noise_update (var0 (centered X)) (W_iter bk cfg g X j))"
      by (cases k) (simp_all add: psi_read_0 psi_read_Suc)
    show ?case
      by (rule exI[of _ k]) (use 1(2) p in \<open>simp add: 1(4) psi_read_Suc del: upt_Suc\<close>)
  next
    case 2
    then show ?case using w by simp
  qed
qed

theorem converged_fit_skips_last_update_witness:
  "valid_cfg lapack_cfg demo_X \<and> warned (fit demo_backend lapack_cfg unfitted 0 demo_X) = [] \<and>
   components_attr (self_after (fit demo_backend lapack_cfg unfitted 0 demo_X)) =
     Some \<lparr>n_cols = 1, row_list = [[0]]\<rparr> \<and>
   noise_variance_attr (self_after (fit demo_backend lapack_cfg unfitted 0 demo_X)) = Some [1] \<and>
   (\<exists>k. raised (fit demo_backend lapack_cfg unfitted 0 demo_X) = None \<and>
        loglike_attr (self_after (fit demo_backend lapack_cfg unfitted 0 demo_X)) =
          Some (map (ll_iter demo_backend lapack_cfg 0 demo_X) [0..<Suc k]) \<and>
        fires_at demo_backend lapack_cfg 0 demo_X k \<and>
        components_attr (self_after (fit demo_backend lapack_cfg unfitted 0 demo_X)) =
          Some (W_iter demo_backend lapack_cfg 0 demo_X k) \<and>
        noise_variance_attr (self_after (fit demo_backend lapack_cfg unfitted 0 demo_X)) =
          Some (psi_read demo_backend lapack_cfg 0 demo_X k) \<and>
        psi_read demo_backend lapack_cfg 0 demo_X k =
          (case k of 0 \<Rightarrow> fit_psi0 lapack_cfg demo_X
           | Suc j \<Rightarrow> noise_update (var0 (centered demo_X)) (W_iter demo_backend lapack_cfg 0 demo_X j)) \<and>
        psi_read demo_backend lapack_cfg 0 demo_X (Suc k) =
          noise_update (var0 (centered demo_X)) (W_iter demo_backend lapack_cfg 0 demo_X k))"
proof -
  have w: "warned (fit demo_backend lapack_cfg unfitted 0 demo_X) = []"
    "components_attr (self_after (fit demo_backend lapack_cfg unfitted 0 demo_X)) =
       Some \<lparr>n_cols = 1, row_list = [[0]]\<rparr>"
    "noise_variance_attr (self_after (fit demo_backend lapack_cfg unfitted 0 demo_X)) = Some [1]"
    by (simp_all add: demo_fit)
  show ?thesis
    using converged_fit_skips_last_update[OF demo_valid(1) w(1)] demo_valid(1) w
    by blast
qed

section \<open>Two calls on the same data\<close>

lemma lapack_em_iter:
  assumes "svd_method cfg = ''lapack''"
  shows "fst (em_iter (fit_env bk cfg X) p g1) = fst (em_iter (fit_env bk cfg X) p g2)"
  using assms
  by (simp add: em_iter_fit fit_svd_def my_svd_lapack_def split: prod.splits)

lemma lapack_em_state:
  assumes "svd_method cfg = ''lapack''"
  shows "fst (em_state (fit_env bk cfg X) (p, g1) i) = fst (em_state (fit_env bk cfg X) (p, g2) i)"
proof (induction i)
  case 0
  show ?case by (simp add: em_state_0)
next
  case (Suc i)
  show ?case
    using lapack_em_iter[OF assms, of bk X "fst (em_state (fit_env bk cfg X) (p, g2) i)"
        "snd (em_state (fit_env bk cfg X) (p, g1) i)"
        "snd (em_state (fit_env bk cfg X) (p, g2) i)"]
    by (simp add: em_state_Suc em_step_def case_prod_beta Suc.IH)
qed

lemma trace_independent:
  assumes "svd_method cfg = ''lapack'' \<or> (\<exists>n. random_state cfg = Seed n)"
  shows "psi_read bk cfg g1 X i = psi_read bk cfg g2 X i"
    and "W_iter bk cfg g1 X i = W_iter bk cfg g2 X i"
    and "ll_iter bk cfg g1 X i = ll_iter bk cfg g2 X i"
proof -
  let ?env = "fit_env bk cfg X"
  have "psi_read bk cfg g1 X i = psi_read bk cfg g2 X i \<and>
        W_iter bk cfg g1 X i = W_iter bk cfg g2 X i \<and>
        ll_iter bk cfg g1 X i = ll_iter bk cfg g2 X i"
  proof (cases "svd_method cfg = ''lapack''")
    case True
    have s: "fit_start bk cfg g X = (fit_psi0 cfg X, g)" for g
      using True by (simp add: fit_start_def)
    have p: "fst (em_state ?env (fit_psi0 cfg X, g1) i) = fst (em_state ?env (fit_psi0 cfg X, g2) i)"
      by (rule lapack_em_state[OF True])
    have e: "fst (em_iter ?env (fst (em_state ?env (fit_psi0 cfg X, g1) i))
                     (snd (em_state ?env (fit_psi0 cfg X, g1) i))) =
             fst (em_iter ?env (fst (em_state ?env (fit_psi0 cfg X, g2) i))
                     (snd (em_state ?env (fit_psi0 cfg X, g2) i)))"
      unfolding p by (rule lapack_em_iter[OF True])
    show ?thesis
      using p e by (simp add: psi_read_def W_iter_def ll_iter_def W_at_def ll_at_def s)
  next
    case False
    then obtain n where "random_state cfg = Seed n" using assms by blast
    then have "fit_start bk cfg g1 X = fit_start bk cfg g2 X"
      using False by (simp add: fit_start_def check_random_state_def)
    then show ?thesis
      by (simp add: psi_read_def W_iter_def ll_iter_def)
  qed
  then show "psi_read bk cfg g1 X i = psi_read bk cfg g2 X i"
    and "W_iter bk cfg g1 X i = W_iter bk cfg g2 X i"
    and "ll_iter bk cfg g1 X i = ll_iter bk cfg g2 X i"
    by simp_all
qed

lemma fires_independent:
  assumes "svd_method cfg = ''lapack'' \<or> (\<exists>n. random_state cfg = Seed n)"
  shows "fires_at bk cfg g1 X i = fires_at bk cfg g2 X i"
  by (simp add: fires_at_def previous_ll_def trace_independent(3)[OF assms, of bk g1 X _ g2])

lemma fit_invalid_outcome:
  assumes "\<not> valid_cfg cfg X"
  shows "fit bk cfg self g X =
     \<lparr>raised = Some ValueError, self_after = self\<lparr>mean_attr := Some (mean0 X)\<rparr>,
      X_after = (if copy cfg then X else centered X), warned = [], rs_after = g\<rparr>"
  using assms by (auto simp: valid_cfg_def fit_def Let_def split: option.splits)

text \<open>
  Claim C9. Take two calls of \<open>fit\<close> on the same data with the same configuration, from
  any two states of the estimator and of the generator outside the call. With the
  exact decomposition, or with an integer seed, both raise the same or both return,
  emit the same warnings and store the same \<open>mean_\<close>; when they return, they store the
  same \<open>components_\<close>, \<open>noise_variance_\<close> and \<open>loglike_\<close>. The library routines are
  functions of their arguments here.
\<close>

theorem fit_is_deterministic:
  assumes d: "svd_method cfg = ''lapack'' \<or> (\<exists>n. random_state cfg = Seed n)"
  shows "raised (fit bk cfg self1 g1 X) = raised (fit bk cfg self2 g2 X) \<and>
         warned (fit bk cfg self1 g1 X) = warned (fit bk cfg self2 g2 X) \<and>
         mean_attr (self_after (fit bk cfg self1 g1 X)) =
           mean_attr (self_after (fit bk cfg self2 g2 X)) \<and>
         (raised (fit bk cfg self1 g1 X) = None \<longrightarrow>
            components_attr (self_after (fit bk cfg self1 g1 X)) =
              components_attr (self_after (fit bk cfg self2 g2 X)) \<and>
            noise_variance_attr (self_after (fit bk cfg self1 g1 X)) =
              noise_variance_attr (self_after (fit bk cfg self2 g2 X)) \<and>
            loglike_attr (self_after (fit bk cfg self1 g1 X)) =
              loglike_attr (self_after (fit bk cfg self2 g2 X)))"
proof (cases "valid_cfg cfg X")
  case False
  show ?thesis by (simp add: fit_invalid_outcome[OF False])
next
  case v: True
  show ?thesis
  proof (cases "0 < max_iter cfg")
    case False
    then have le: "max_iter cfg \<le> 0" by simp
    show ?thesis by (simp add: fit_no_iteration[OF v le])
  next
    case pos: True
    note t = trace_independent[OF d, of bk g1 X _ g2]
    show ?thesis
    proof (rule fit_run_cases[OF v pos, where bk = bk and g = g1 and self = self1], goal_cases)
      case (1 k)
      have f2: "fires_at bk cfg g2 X k" using 1(2) fires_independent[OF d, of bk g1 X k g2] by simp
      have nf2: "\<not> fires_at bk cfg g2 X i" if "i < k" for i
        using 1(3)[OF that] fires_independent[OF d, of bk g1 X i g2] by simp
      show ?case
        unfolding 1(4) by (simp add: fit_break[OF v 1(1) f2 nf2] t del: upt_Suc)
    next
      case 2
      have nf2: "\<not> fires_at bk cfg g2 X i" if "i < nat (max_iter cfg)" for i
        using 2(1)[OF that] fires_independent[OF d, of bk g1 X i g2] by simp
      show ?case
        unfolding 2(2) by (simp add: fit_exhausted[OF v nf2 pos] t)
    qed
  qed
qed

lemma default_valid: "valid_cfg default_cfg demo_X" "0 < max_iter default_cfg"
  "svd_method default_cfg = ''randomized''" "random_state default_cfg = Seed 0"
  by (simp_all add: valid_cfg_def default_cfg_def)

theorem fit_is_deterministic_witness:
  "(svd_method default_cfg = ''lapack'' \<or> (\<exists>n. random_state default_cfg = Seed n)) \<and>
   raised (fit demo_backend default_cfg unfitted 0 demo_X) = None \<and>
   raised (fit demo_backend default_cfg (unfitted\<lparr>mean_attr := Some [5]\<rparr>) 7 demo_X) = None \<and>
   warned (fit demo_backend default_cfg unfitted 0 demo_X) =
     warned (fit demo_backend default_cfg (unfitted\<lparr>mean_attr := Some [5]\<rparr>) 7 demo_X) \<and>
   mean_attr (self_after (fit demo_backend default_cfg unfitted 0 demo_X)) =
     mean_attr (self_after (fit demo_backend default_cfg (unfitted\<lparr>mean_attr := Some [5]\<rparr>) 7 demo_X)) \<and>
   components_attr (self_after (fit demo_backend default_cfg unfitted 0 demo_X)) =
     components_attr (self_after (fit demo_backend default_cfg (unfitted\<lparr>mean_attr := Some [5]\<rparr>) 7 demo_X)) \<and>
   noise_variance_attr (self_after (fit demo_backend default_cfg unfitted 0 demo_X)) =
     noise_variance_attr (self_after (fit demo_backend default_cfg (unfitted\<lparr>mean_attr := Some [5]\<rparr>) 7 demo_X)) \<and>
   loglike_attr (self_after (fit demo_backend default_cfg unfitted 0 demo_X)) =
     loglike_attr (self_after (fit demo_backend default_cfg (unfitted\<lparr>mean_attr := Some [5]\<rparr>) 7 demo_X))"
proof -
  have d: "svd_method default_cfg = ''lapack'' \<or> (\<exists>n. random_state default_cfg = Seed n)"
    by (simp add: default_valid)
  have r: "raised (fit demo_backend default_cfg unfitted 0 demo_X) = None"
    using fit_loglike[OF default_valid(1) default_valid(2), of demo_backend unfitted 0] by blast
  show ?thesis
    using fit_is_deterministic[OF d, of demo_backend unfitted 0 demo_X
        "unfitted\<lparr>mean_attr := Some [5]\<rparr>" 7] d r
    by simp
qed

section \<open>Arrays by their entries\<close>

lemma rectD: "rect A \<Longrightarrow> i < n_rows A \<Longrightarrow> length (row_list A ! i) = n_cols A"
  by (simp add: rect_def list_all_length n_rows_def)

lemma dot1_sum: "dot1 u v = (\<Sum>t<min (length u) (length v). u ! t * v ! t)"
proof -
  have "dot1 u v = (\<Sum>t = 0..<length (zip u v). map2 (*) u v ! t)"
    unfolding dot1_def by (simp add: sum_list_sum_nth)
  also have "\<dots> = (\<Sum>t = 0..<min (length u) (length v). u ! t * v ! t)"
    by (rule sum.cong) simp_all
  finally show ?thesis by (simp add: atLeast0LessThan)
qed

subsection \<open>transpose\<close>

lemma shape_np_T: "n_rows (np_T A) = n_cols A" "n_cols (np_T A) = n_rows A"
  by (simp_all add: np_T_def n_rows_def)

lemma rect_np_T: "rect (np_T A)"
  by (simp add: rect_def np_T_def list_all_iff n_rows_def)

lemma row_np_T: "c < n_cols A \<Longrightarrow> row_list (np_T A) ! c = map (\<lambda>r. r ! c) (row_list A)"
  by (simp add: np_T_def)

lemma entry_np_T: "c < n_cols A \<Longrightarrow> t < n_rows A \<Longrightarrow> entry (np_T A) c t = entry A t c"
  by (simp add: entry_def row_np_T n_rows_def)

subsection \<open>product\<close>

lemma shape_dot: "n_rows (dot A B) = n_rows A" "n_cols (dot A B) = n_cols B"
  by (simp_all add: dot_def n_rows_def)

lemma rect_dot: "rect (dot A B)"
  using shape_np_T(1)[of B]
  by (simp add: rect_def dot_def list_all_iff n_rows_def)

lemma entry_dot:
  assumes "i < n_rows A" "j < n_cols B" "length (row_list A ! i) = n_rows B"
  shows "entry (dot A B) i j = (\<Sum>t<n_rows B. entry A i t * entry B t j)"
proof -
  have j': "j < length (row_list (np_T B))" using assms(2) shape_np_T(1)[of B] by (simp add: n_rows_def)
  have "entry (dot A B) i j = dot1 (row_list A ! i) (row_list (np_T B) ! j)"
    using assms(1) j' by (simp add: entry_def dot_def n_rows_def)
  also have "\<dots> = (\<Sum>t<n_rows B. row_list A ! i ! t * map (\<lambda>r. r ! j) (row_list B) ! t)"
    using assms(3) by (simp add: dot1_sum row_np_T[OF assms(2)] n_rows_def)
  also have "\<dots> = (\<Sum>t<n_rows B. entry A i t * entry B t j)"
    by (rule sum.cong) (simp_all add: entry_def n_rows_def)
  finally show ?thesis .
qed

subsection \<open>broadcasting a vector\<close>




subsection \<open>identity and sum\<close>







subsection \<open>flat views\<close>

lemma length_concat_uniform:
  "list_all (\<lambda>r. length r = n) xss \<Longrightarrow> length (concat xss) = length xss * n"
  by (induction xss) simp_all

lemma nth_concat_uniform:
  "list_all (\<lambda>r. length r = n) xss \<Longrightarrow> i < length xss \<Longrightarrow> j < n \<Longrightarrow>
   concat xss ! (i * n + j) = xss ! i ! j"
proof (induction xss arbitrary: i)
  case Nil
  then show ?case by simp
next
  case (Cons r xss)
  show ?case
  proof (cases i)
    case 0
    then show ?thesis using Cons.prems by (simp add: nth_append)
  next
    case (Suc k)
    have "Suc k * n + j = length r + (k * n + j)" using Cons.prems(1) by simp
    then show ?thesis using Cons Suc by (simp add: nth_append)
  qed
qed

lemma length_flat: "rect A \<Longrightarrow> length (flat A) = n_rows A * n_cols A"
  by (simp add: flat_def rect_def n_rows_def length_concat_uniform)

lemma nth_flat:
  "rect A \<Longrightarrow> i < n_rows A \<Longrightarrow> j < n_cols A \<Longrightarrow> flat A ! (i * n_cols A + j) = entry A i j"
  by (simp add: flat_def rect_def n_rows_def entry_def nth_concat_uniform)

lemma shape_reshape: "n_rows (reshape m n f) = m" "n_cols (reshape m n f) = n"
  by (simp_all add: reshape_def n_rows_def)

lemma rect_reshape: "m * n \<le> length f \<Longrightarrow> rect (reshape m n f)"
proof -
  assume l: "m * n \<le> length f"
  have "n \<le> length f - i * n" if "i < m" for i
  proof -
    have "Suc i * n \<le> m * n" using that by (intro mult_le_mono1) simp
    then show ?thesis using l by simp
  qed
  then show ?thesis by (simp add: rect_def reshape_def list_all_iff)
qed

lemma entry_reshape:
  assumes "m * n \<le> length f" "i < m" "j < n"
  shows "entry (reshape m n f) i j = f ! (i * n + j)"
proof -
  have "i \<le> m" using assms(2) by simp
  then have "i * n \<le> m * n" by (rule mult_le_mono1)
  then have "i * n \<le> length f" using assms(1) by (rule le_trans)
  then show ?thesis using assms by (simp add: entry_def reshape_def)
qed

section \<open>The covariance of the fitted model\<close>

lemma diag_index:
  assumes "i < n" "j < n"
  shows "((i * n + j) mod Suc n = 0) = (i = j)"
    and "(i * n + i) div Suc n = i"
proof -
  show "(i * n + i) div Suc n = i"
  proof -
    have "(i * Suc n) div Suc n = i" by (rule div_mult_self_is_m) simp
    then show ?thesis by (simp add: add.commute)
  qed
  show "((i * n + j) mod Suc n = 0) = (i = j)"
  proof (cases "i = j")
    case True
    have "(j * Suc n) mod Suc n = 0" by (rule mod_mult_self2_is_0)
    then show ?thesis using True by (simp add: add.commute)
  next
    case False
    show ?thesis
    proof (cases "i < j")
      case True
      have "i * n + j = (j - i) + i * Suc n" using True by simp
      then have "(i * n + j) mod Suc n = (j - i) mod Suc n"
        by (simp only: mod_mult_self1)
      also have "\<dots> = j - i" using assms by simp
      finally show ?thesis using True False by simp
    next
      case ge: False
      then have ji: "j < i" using False by simp
      then obtain i' where i': "i = Suc i'" by (cases i) auto
      have "i * n + j = (Suc n - (i - j)) + i' * Suc n"
        using ji assms i' by (simp add: algebra_simps)
      then have "(i * n + j) mod Suc n = (Suc n - (i - j)) mod Suc n"
        by (simp only: mod_mult_self1)
      also have "\<dots> = Suc n - (i - j)" using ji by simp
      finally show ?thesis using False ji assms by simp
    qed
  qed
qed

lemma strided_count: "(n * n + n) div Suc n = n"
proof -
  have "(n * Suc n) div Suc n = n" by (rule div_mult_self_is_m) simp
  then show ?thesis by (simp add: add.commute)
qed

lemma gram_entries:
  assumes "rect Wm"
  shows "n_rows (dot (np_T Wm) Wm) = n_cols Wm" "n_cols (dot (np_T Wm) Wm) = n_cols Wm"
    "rect (dot (np_T Wm) Wm)"
    "i < n_cols Wm \<Longrightarrow> j < n_cols Wm \<Longrightarrow>
       entry (dot (np_T Wm) Wm) i j = (\<Sum>t<n_rows Wm. entry Wm t i * entry Wm t j)"
proof -
  show "n_rows (dot (np_T Wm) Wm) = n_cols Wm" "n_cols (dot (np_T Wm) Wm) = n_cols Wm"
    "rect (dot (np_T Wm) Wm)"
    by (simp_all add: shape_dot shape_np_T rect_dot)
  assume ij: "i < n_cols Wm" "j < n_cols Wm"
  have len: "length (row_list (np_T Wm) ! i) = n_rows Wm"
    using rectD[OF rect_np_T, of i Wm] ij(1) by (simp add: shape_np_T)
  have "entry (dot (np_T Wm) Wm) i j = (\<Sum>t<n_rows Wm. entry (np_T Wm) i t * entry Wm t j)"
    using ij by (intro entry_dot) (simp_all add: shape_np_T len)
  also have "\<dots> = (\<Sum>t<n_rows Wm. entry Wm t i * entry Wm t j)"
    using ij by (intro sum.cong) (simp_all add: entry_np_T)
  finally show "entry (dot (np_T Wm) Wm) i j = (\<Sum>t<n_rows Wm. entry Wm t i * entry Wm t j)" .
qed

lemma get_covariance_entries:
  assumes c: "components_attr self = Some Wm" and p: "noise_variance_attr self = Some p"
    and r: "rect Wm" and l: "length p = n_cols Wm"
  shows "\<exists>C. get_covariance self = Inr C \<and> n_rows C = n_cols Wm \<and> n_cols C = n_cols Wm \<and>
           rect C \<and>
           (\<forall>i<n_cols Wm. \<forall>j<n_cols Wm.
              entry C i j = (\<Sum>t<n_rows Wm. entry Wm t i * entry Wm t j) +
                            (if i = j then p ! i else 0))"
proof -
  let ?n = "n_cols Wm"
  let ?cov = "dot (np_T Wm) Wm"
  let ?h = "\<lambda>q. if q mod (?n + 1) = 0 then flat ?cov ! q + p ! (q div (?n + 1)) else flat ?cov ! q"
  let ?f = "map ?h [0..<?n * ?n]"
  note g = gram_entries[OF r]
  have lf: "length (flat ?cov) = ?n * ?n" using length_flat[OF g(3)] by (simp add: g)
  have st: "iadd_strided (flat ?cov) (n_rows ?cov + 1) p = Some ?f"
    using l by (simp add: iadd_strided_def lf g(1) strided_count)
  have gc: "get_covariance self = Inr (reshape ?n ?n ?f)"
    using st by (simp add: get_covariance_def c p Let_def g)
  have ent: "entry (reshape ?n ?n ?f) i j =
      (\<Sum>t<n_rows Wm. entry Wm t i * entry Wm t j) + (if i = j then p ! i else 0)"
    if ij: "i < ?n" "j < ?n" for i j
  proof -
    have "Suc i * ?n \<le> ?n * ?n" using ij(1) by (intro mult_le_mono1) simp
    then have q: "i * ?n + j < ?n * ?n" using ij(2) by simp
    have fl: "flat ?cov ! (i * ?n + j) = entry ?cov i j"
      using nth_flat[OF g(3), of i j] ij by (simp add: g)
    have "entry (reshape ?n ?n ?f) i j = ?f ! (i * ?n + j)"
      using ij by (intro entry_reshape) simp_all
    also have "\<dots> = ?h (i * ?n + j)" using q by simp
    also have "\<dots> = entry ?cov i j + (if i = j then p ! i else 0)"
      using diag_index[OF ij] diag_index(2)[OF ij(1) ij(1)] fl by auto
    finally show ?thesis using g(4)[OF ij] by simp
  qed
  show ?thesis
    by (intro exI[of _ "reshape ?n ?n ?f"] conjI allI impI gc ent)
      (simp_all add: shape_reshape rect_reshape)
qed

lemma gram_psd:
  fixes x :: "nat \<Rightarrow> real" and w :: "nat \<Rightarrow> nat \<Rightarrow> real"
  shows "(\<Sum>i<n. \<Sum>j<n. x i * (\<Sum>t<k. w t i * w t j) * x j) = (\<Sum>t<k. (\<Sum>i<n. x i * w t i)\<^sup>2)"
proof -
  have "(\<Sum>i<n. \<Sum>j<n. x i * (\<Sum>t<k. w t i * w t j) * x j) =
        (\<Sum>i<n. \<Sum>j<n. \<Sum>t<k. (x i * w t i) * (x j * w t j))"
    by (simp add: sum_distrib_left sum_distrib_right mult_ac)
  also have "\<dots> = (\<Sum>i<n. \<Sum>t<k. \<Sum>j<n. (x i * w t i) * (x j * w t j))"
    by (intro sum.cong refl sum.swap)
  also have "\<dots> = (\<Sum>t<k. \<Sum>i<n. \<Sum>j<n. (x i * w t i) * (x j * w t j))"
    by (rule sum.swap)
  also have "\<dots> = (\<Sum>t<k. (\<Sum>i<n. x i * w t i) * (\<Sum>j<n. x j * w t j))"
    by (simp add: sum_product)
  finally show ?thesis by (simp add: power2_eq_square)
qed

lemma diag_form:
  fixes x :: "nat \<Rightarrow> real"
  shows "(\<Sum>i<n. \<Sum>j<n. x i * (if i = j then d i else 0) * x j) = (\<Sum>i<n. d i * (x i)\<^sup>2)"
proof (rule sum.cong)
  fix i assume "i \<in> {..<n}"
  then have "(\<Sum>j<n. x i * (if i = j then d i else 0) * x j) =
        (\<Sum>j<n. if j = i then x i * d i * x i else 0)"
    by (intro sum.cong) auto
  also have "\<dots> = x i * d i * x i"
    using \<open>i \<in> {..<n}\<close> by (simp add: sum.delta)
  finally show "(\<Sum>j<n. x i * (if i = j then d i else 0) * x j) = d i * (x i)\<^sup>2"
    by (simp add: power2_eq_square mult_ac)
qed simp

lemma fit_model:
  assumes r: "raised (fit bk cfg self g X) = None" and vec: "svd_vectors_ok bk cfg X"
  shows "\<exists>Wm p. components_attr (self_after (fit bk cfg self g X)) = Some Wm \<and>
           noise_variance_attr (self_after (fit bk cfg self g X)) = Some p \<and>
           mean_attr (self_after (fit bk cfg self g X)) = Some (mean0 X) \<and>
           rect Wm \<and> n_cols Wm = n_cols X \<and> length p = n_cols X \<and>
           list_all (\<lambda>q. SMALL \<le> q) p"
proof -
  from fit_raised_None[OF r] have v: "valid_cfg cfg X" and pos: "0 < max_iter cfg" by simp_all
  have fl: "list_all (\<lambda>q. SMALL \<le> q) (psi_read bk cfg g X k)" if kn: "k \<noteq> 0" for k
  proof -
    obtain j where "k = Suc j" using kn by (cases k) auto
    then show ?thesis by (simp add: psi_read_Suc noise_update_floor)
  qed
  show ?thesis
  proof (rule fit_run_cases[OF v pos, where bk = bk and g = g and self = self], goal_cases)
    case (1 k)
    have "k \<noteq> 0" using 1(2) not_fires_at_0[of bk cfg g X] by (cases "k = 0") simp_all
    then show ?case
      by (simp add: 1(4) W_iter_rect[OF v vec] W_iter_n_cols[OF vec] length_psi_read[OF v vec] fl)
  next
    case 2
    have "nat (max_iter cfg) \<noteq> 0" using pos by simp
    then show ?case
      by (simp add: 2(2) W_iter_rect[OF v vec] W_iter_n_cols[OF vec] length_psi_read[OF v vec] fl)
  qed
qed

lemma get_covariance_frame:
  "get_covariance (self\<lparr>mean_attr := m, loglike_attr := L\<rparr>) = get_covariance self"
  by (simp add: get_covariance_def Let_def split: option.splits)

section \<open>The projection on the latent space\<close>



lemma demo_lapack_contract:
  "svd_vectors_ok demo_backend lapack_cfg demo_X" "svd_counts_ok demo_backend demo_X"
  by (rule demo_contract; simp add: lapack_cfg_def default_cfg_def) (rule demo_counts)

lemma demo_raised: "raised (fit demo_backend lapack_cfg unfitted 0 demo_X) = None"
  by (simp add: demo_fit)

lemma demo_model:
  "self_after (fit demo_backend lapack_cfg unfitted 0 demo_X) =
     \<lparr>mean_attr = Some [2], components_attr = Some \<lparr>n_cols = 1, row_list = [[0]]\<rparr>,
      noise_variance_attr = Some [1],
      loglike_attr = Some [ll_iter demo_backend lapack_cfg 0 demo_X 0,
                           ll_iter demo_backend lapack_cfg 0 demo_X 0]\<rparr>"
  by (simp add: demo_fit unfitted_def)

lemma demo_covariance:
  "get_covariance (self_after (fit demo_backend lapack_cfg unfitted 0 demo_X)) =
     Inr \<lparr>n_cols = 1, row_list = [[1]]\<rparr>"
  by (simp add: demo_model get_covariance_def dot_def np_T_def n_rows_def dot1_def flat_def
        iadd_strided_def reshape_def Let_def)



section \<open>The two inference operations on a fitted model\<close>

text \<open>
  Claim C7. For the model a call of \<open>fit\<close> returned, \<open>get_covariance\<close> is the
  \<open>n_features \<times> n_features\<close> matrix with the entries of \<open>W\<^sup>T W + diag psi\<close>, where \<open>W\<close> is
  \<open>components_\<close> and \<open>psi\<close> is \<open>noise_variance_\<close>. It is symmetric, its diagonal is that of
  \<open>W\<^sup>T W\<close> plus \<open>psi\<close>, its quadratic form is nowhere negative, and it is the same
  whatever \<open>mean_\<close> and \<open>loglike_\<close> hold: only the two parameters are read. The function
  returns a value and stores nothing.
\<close>

theorem get_covariance_of_fitted_model:
  assumes r: "raised (fit bk cfg self g X) = None" and vec: "svd_vectors_ok bk cfg X"
  shows "\<exists>Wm p C.
           components_attr (self_after (fit bk cfg self g X)) = Some Wm \<and>
           noise_variance_attr (self_after (fit bk cfg self g X)) = Some p \<and>
           get_covariance (self_after (fit bk cfg self g X)) = Inr C \<and>
           n_rows C = n_cols X \<and> n_cols C = n_cols X \<and> rect C \<and>
           (\<forall>i<n_cols X. \<forall>j<n_cols X.
              entry C i j = (\<Sum>t<n_rows Wm. entry Wm t i * entry Wm t j) +
                            (if i = j then p ! i else 0)) \<and>
           (\<forall>i<n_cols X. \<forall>j<n_cols X. entry C i j = entry C j i) \<and>
           (\<forall>i<n_cols X. entry C i i = (\<Sum>t<n_rows Wm. (entry Wm t i)\<^sup>2) + p ! i) \<and>
           (\<forall>x. 0 \<le> (\<Sum>i<n_cols X. \<Sum>j<n_cols X. x i * entry C i j * x j)) \<and>
           (\<forall>m L. get_covariance ((self_after (fit bk cfg self g X))\<lparr>mean_attr := m, loglike_attr := L\<rparr>) =
                  Inr C)"
proof -
  let ?self = "self_after (fit bk cfg self g X)"
  let ?n = "n_cols X"
  from fit_model[OF r vec] obtain Wm p where m:
    "components_attr ?self = Some Wm" "noise_variance_attr ?self = Some p"
    "rect Wm" "n_cols Wm = ?n" "length p = ?n" "list_all (\<lambda>q. SMALL \<le> q) p"
    by blast
  from get_covariance_entries[OF m(1) m(2) m(3)] m(4) m(5)
  obtain C where C: "get_covariance ?self = Inr C" "n_rows C = ?n" "n_cols C = ?n" "rect C"
    and ent: "\<And>i j. i < ?n \<Longrightarrow> j < ?n \<Longrightarrow>
       entry C i j = (\<Sum>t<n_rows Wm. entry Wm t i * entry Wm t j) + (if i = j then p ! i else 0)"
    by auto
  have sym: "entry C i j = entry C j i" if "i < ?n" "j < ?n" for i j
    using that by (auto simp: ent mult.commute)
  have diag: "entry C i i = (\<Sum>t<n_rows Wm. (entry Wm t i)\<^sup>2) + p ! i" if "i < ?n" for i
    using that by (simp add: ent power2_eq_square)
  have pos: "0 \<le> p ! i" if "i < ?n" for i
  proof -
    have "SMALL \<le> p ! i" using m(6) m(5) that by (simp add: list_all_length)
    then show ?thesis using SMALL_pos by simp
  qed
  have psd: "0 \<le> (\<Sum>i<?n. \<Sum>j<?n. x i * entry C i j * x j)" for x :: "nat \<Rightarrow> real"
  proof -
    have "(\<Sum>i<?n. \<Sum>j<?n. x i * entry C i j * x j) =
          (\<Sum>i<?n. \<Sum>j<?n. x i * (\<Sum>t<n_rows Wm. entry Wm t i * entry Wm t j) * x j +
                           x i * (if i = j then p ! i else 0) * x j)"
      by (intro sum.cong refl) (simp add: ent algebra_simps)
    also have "\<dots> = (\<Sum>i<?n. \<Sum>j<?n. x i * (\<Sum>t<n_rows Wm. entry Wm t i * entry Wm t j) * x j) +
                     (\<Sum>i<?n. \<Sum>j<?n. x i * (if i = j then p ! i else 0) * x j)"
      by (simp add: sum.distrib)
    also have "\<dots> = (\<Sum>t<n_rows Wm. (\<Sum>i<?n. x i * entry Wm t i)\<^sup>2) + (\<Sum>i<?n. p ! i * (x i)\<^sup>2)"
      by (simp only: gram_psd[where n = ?n and x = x and k = "n_rows Wm" and w = "\<lambda>t i. entry Wm t i"]
          diag_form[where n = ?n and x = x and d = "\<lambda>i. p ! i"])
    also have "0 \<le> \<dots>"
      by (intro add_nonneg_nonneg sum_nonneg mult_nonneg_nonneg) (simp_all add: pos)
    finally show ?thesis .
  qed
  show ?thesis
    by (intro exI[of _ Wm] exI[of _ p] exI[of _ C] conjI allI impI m(1) m(2) C ent sym diag psd)
      (simp_all add: get_covariance_frame C)
qed

theorem get_covariance_of_fitted_model_witness:
  "raised (fit demo_backend lapack_cfg unfitted 0 demo_X) = None \<and>
   svd_vectors_ok demo_backend lapack_cfg demo_X \<and>
   get_covariance (self_after (fit demo_backend lapack_cfg unfitted 0 demo_X)) =
     Inr \<lparr>n_cols = 1, row_list = [[1]]\<rparr> \<and>
   (\<exists>Wm p C.
      components_attr (self_after (fit demo_backend lapack_cfg unfitted 0 demo_X)) = Some Wm \<and>
      noise_variance_attr (self_after (fit demo_backend lapack_cfg unfitted 0 demo_X)) = Some p \<and>
      get_covariance (self_after (fit demo_backend lapack_cfg unfitted 0 demo_X)) = Inr C \<and>
      n_rows C = n_cols demo_X \<and> n_cols C = n_cols demo_X \<and> rect C \<and>
      (\<forall>x. 0 \<le> (\<Sum>i<n_cols demo_X. \<Sum>j<n_cols demo_X. x i * entry C i j * x j)))"
proof -
  from get_covariance_of_fitted_model[OF demo_raised demo_lapack_contract(1)]
  obtain Wm p C where
    "components_attr (self_after (fit demo_backend lapack_cfg unfitted 0 demo_X)) = Some Wm"
    "noise_variance_attr (self_after (fit demo_backend lapack_cfg unfitted 0 demo_X)) = Some p"
    "get_covariance (self_after (fit demo_backend lapack_cfg unfitted 0 demo_X)) = Inr C"
    "n_rows C = n_cols demo_X" "n_cols C = n_cols demo_X" "rect C"
    "\<forall>x. 0 \<le> (\<Sum>i<n_cols demo_X. \<Sum>j<n_cols demo_X. x i * entry C i j * x j)"
    by blast
  then show ?thesis
    using demo_raised demo_lapack_contract(1) demo_covariance by blast
qed

section \<open>The matrix \<open>transform\<close> inverts\<close>



section \<open>The projection of a fitted model\<close>





end
